theory Spec2Isabelle
  imports Complex_Main "HOL-Library.Sublist" "HOL-Library.Multiset"
begin

section \<open>The remux job pipeline of video-processor.js\<close>

text \<open>
  The development embeds the class \<open>VideoProcessor\<close> of \<open>src/video-processor.js\<close>.
  Everything the class does to the outside world (job store updates, object store
  requests, subprocesses, console errors, statistics) is recorded, in program order, as a
  list of events. What the outside world answers (whether an object exists, whether a
  download fails, what the media tool prints, what the clock shows) is read from an
  environment record, one per processed job.
\<close>

subsection \<open>JavaScript values\<close>

text \<open>
  A JavaScript number is modelled by its mathematical value: every finite double is a
  rational, and the comparisons of the source agree with those of the rationals.
\<close>

datatype jsnum = Num rat | NaN | PosInfinity | NegInfinity

text \<open>Truthiness of a number: \<open>0\<close> and \<open>NaN\<close> are falsy.\<close>

fun truthy :: "jsnum \<Rightarrow> bool" where
  "truthy (Num r) = (r \<noteq> 0)"
| "truthy NaN = False"
| "truthy PosInfinity = True"
| "truthy NegInfinity = True"

text \<open>The comparison \<open>x <= 1\<close>.\<close>

fun le_one :: "jsnum \<Rightarrow> bool" where
  "le_one (Num r) = (r \<le> 1)"
| "le_one NaN = False"
| "le_one PosInfinity = False"
| "le_one NegInfinity = True"

datatype jsval = JStr string | JNum jsnum

type_synonym metadata = "string \<rightharpoonup> jsval"

text \<open>
  \<open>s.includes(t)\<close>: \<open>t\<close> occurs in \<open>s\<close> as a contiguous substring.
\<close>

fun str_includes :: "string \<Rightarrow> string \<Rightarrow> bool" where
  "str_includes [] t = (t = [])"
| "str_includes (c # cs) t = (prefix t (c # cs) \<or> str_includes cs t)"

text \<open>\<open>a || b\<close> on strings: the empty string is falsy.\<close>

definition str_or :: "string \<Rightarrow> string \<Rightarrow> string" where
  "str_or a b = (if a \<noteq> [] then a else b)"

subsection \<open>Rows of the table packing\_records\<close>

text \<open>
  The columns the processor reads or writes. Nullable columns are options. The columns
  \<open>video_filename\<close>, \<open>order_number\<close> and \<open>video_size\<close> are only printed by
  \<open>console.log\<close> and are left out.
\<close>

record packing_record =
  row_id :: string
  status :: string
  remux_status :: "string option"
  remux_attempts :: "int option"
  video_duration :: "rat option"
  video_url :: string
  created_at :: nat
  remuxed_at :: "string option"
  remuxed_size :: "int option"
  metadata :: "metadata option"

text \<open>
  The object passed to \<open>.update(...)\<close>. Every update of the source sets
  \<open>remux_status\<close> and \<open>metadata\<close>; the other columns are set by some updates only.
\<close>

record update =
  set_remux_status :: string
  set_remux_attempts :: "int option"
  set_remuxed_at :: "string option"
  set_remuxed_size :: "int option"
  set_metadata :: metadata

subsection \<open>Events and the environment\<close>

datatype tool = Ffprobe | Ffmpeg | Wget | Curl

datatype counter = Processed | Failed | Skipped

datatype event =
    DbUpdate string update
  | HeadObject string
  | GetObject string
  | PutObject string
  | Exec tool
  | Cleanup
  | ConsoleError string
  | ConsoleWarn string
  | StatsIncr counter
  | StatsSaved int

text \<open>
  The arguments \<open>(error, stdout, stderr)\<close> that \<open>child_process.exec\<close> passes to its
  callback. \<open>err_code\<close> is \<open>error.code\<close>: the exit status when it is a number,
  \<open>None\<close> when it is \<open>null\<close> (killed by a signal) or not a number.
\<close>

record exec_error =
  err_code :: "int option"
  err_message :: string

record exec_result =
  cb_error :: "exec_error option"
  cb_stdout :: string
  cb_stderr :: string

text \<open>
  The environment of one run of \<open>processVideo\<close>. An awaited call that can reject
  has an outcome \<open>Some msg\<close> or \<open>Inl msg\<close> when it rejects with an error whose
  \<open>message\<close> is \<open>msg\<close>.
  \<^item> \<open>head_object\<close>: the answer to the HeadObject request, \<open>Inr n\<close> with
    \<open>n = response.ContentLength\<close> (\<open>None\<close> when the field is undefined);
  \<^item> \<open>get_object\<close>, \<open>signed_url\<close>, \<open>wget\<close>, \<open>curl\<close>: the four steps of
    \<open>downloadFromR2\<close>;
  \<^item> \<open>stat_input\<close>, \<open>stat_output\<close>: \<open>fs.stat(...).size\<close> of the two scratch files;
  \<^item> \<open>ffprobe\<close>: \<open>Inr v\<close> when the inspection command succeeds and
    \<open>parseFloat(stdout.trim())\<close> is \<open>v\<close>;
  \<^item> \<open>ffmpeg\<close>: what \<open>exec\<close> passes to the callback of the remux command;
  \<^item> \<open>read_output\<close>, \<open>put_object\<close>: the two steps of \<open>uploadToR2\<close>;
  \<^item> \<open>iso_skipped\<close>, \<open>iso_attempt\<close>, \<open>iso_remuxed\<close>, \<open>iso_failed\<close>: the value of
    \<open>new Date().toISOString()\<close> where the source writes \<open>skipped_at\<close>,
    \<open>last_remux_attempt\<close>, \<open>remuxed_at\<close> and \<open>failed_at\<close>;
  \<^item> \<open>now_start\<close>, \<open>now_end\<close>: the two readings of \<open>Date.now()\<close>;
  \<^item> \<open>saved_percent\<close>: the string that the floating point expression
    \<open>((savedBytes / inputStats.size) * 100).toFixed(2)\<close> evaluates to.
  The job store client resolves every request with a result object
  \<open>{data, error}\<close> (as \<open>processVideos\<close> reads it); the source ignores the
  result of its updates, so an update is an event and has no outcome here.
\<close>

record env =
  head_object :: "string + nat option"
  get_object :: "string option"
  signed_url :: "string option"
  wget :: "string option"
  curl :: "string option"
  stat_input :: "string + nat"
  ffprobe :: "string + jsnum"
  ffmpeg :: exec_result
  stat_output :: "string + nat"
  read_output :: "string option"
  put_object :: "string option"
  iso_skipped :: string
  iso_attempt :: string
  iso_remuxed :: string
  iso_failed :: string
  now_start :: int
  now_end :: int
  saved_percent :: string

text \<open>
  A step of an async function: the events it causes, and \<open>Inl msg\<close> when it throws,
  \<open>Inr x\<close> when it returns \<open>x\<close>. \<open>and_then\<close> is sequencing (\<open>await\<close>): a
  throw skips the rest.
\<close>

type_synonym 'a step = "event list \<times> (string + 'a)"

definition finished :: "'a \<Rightarrow> 'a step" where
  "finished x = ([], Inr x)"

definition emit :: "event \<Rightarrow> unit step" where
  "emit ev = ([ev], Inr ())"

definition await :: "string + 'a \<Rightarrow> 'a step" where
  "await r = ([], r)"

definition and_then :: "'a step \<Rightarrow> ('a \<Rightarrow> 'b step) \<Rightarrow> 'b step" where
  "and_then m f =
     (case m of
        (evs, Inl msg) \<Rightarrow> (evs, Inl msg)
      | (evs, Inr x) \<Rightarrow> (case f x of (evs', r) \<Rightarrow> (evs @ evs', r)))"

subsection \<open>The gateways: getVideoDuration, checkR2File, downloadFromR2, uploadToR2\<close>

text \<open>
  \<open>getVideoDuration\<close> (lines 291-301): the whole body is inside \<open>try\<close>; the
  \<open>catch\<close> warns and returns \<open>0\<close>. \<open>parseFloat(...) || 0\<close> replaces a falsy
  result (\<open>NaN\<close>, \<open>0\<close>) by \<open>0\<close>.
\<close>

definition getVideoDuration :: "env \<Rightarrow> jsnum step" where
  "getVideoDuration e =
     (case ffprobe e of
        Inl msg \<Rightarrow> ([Exec Ffprobe, ConsoleWarn msg], Inr (Num 0))
      | Inr v \<Rightarrow> ([Exec Ffprobe], Inr (if truthy v then v else Num 0)))"

text \<open>
  \<open>checkR2File\<close> (lines 303-315): \<open>response.ContentLength > 0\<close>, and \<open>false\<close>
  when the request throws. \<open>undefined > 0\<close> is \<open>false\<close>.
\<close>

definition checkR2File :: "env \<Rightarrow> string \<Rightarrow> bool step" where
  "checkR2File e key =
     (case head_object e of
        Inl msg \<Rightarrow> ([HeadObject key], Inr False)
      | Inr None \<Rightarrow> ([HeadObject key], Inr False)
      | Inr (Some n) \<Rightarrow> ([HeadObject key], Inr (n > 0)))"

text \<open>
  \<open>downloadFromR2\<close> (lines 317-351): the streamed download; when it throws, a signed
  URL fetched with wget; when wget fails, curl. Only a failure of \<open>getSignedUrl\<close> or
  of curl leaves the function.
\<close>

definition downloadFromR2 :: "env \<Rightarrow> string \<Rightarrow> unit step" where
  "downloadFromR2 e key =
     (case get_object e of
        None \<Rightarrow> ([GetObject key], Inr ())
      | Some _ \<Rightarrow>
          (case signed_url e of
             Some msg \<Rightarrow> ([GetObject key], Inl msg)
           | None \<Rightarrow>
               (case wget e of
                  None \<Rightarrow> ([GetObject key, Exec Wget], Inr ())
                | Some _ \<Rightarrow>
                    (case curl e of
                       None \<Rightarrow> ([GetObject key, Exec Wget, Exec Curl], Inr ())
                     | Some msg \<Rightarrow> ([GetObject key, Exec Wget, Exec Curl], Inl msg)))))"

text \<open>\<open>uploadToR2\<close> (lines 353-369): read the file, then one PutObject on \<open>key\<close>.\<close>

definition uploadToR2 :: "env \<Rightarrow> string \<Rightarrow> unit step" where
  "uploadToR2 e key =
     (case read_output e of
        Some msg \<Rightarrow> ([], Inl msg)
      | None \<Rightarrow>
          (case put_object e of
             Some msg \<Rightarrow> ([PutObject key], Inl msg)
           | None \<Rightarrow> ([PutObject key], Inr ())))"

subsection \<open>The transcode invoker: executeFFmpeg\<close>

text \<open>
  The callback of \<open>exec\<close> (lines 395-408). The promise rejects with
  \<open>FFmpeg failed: \<close> followed by the first 500 characters of
  \<open>stderr || stdout || error.message\<close>, and resolves otherwise.
\<close>

definition executeFFmpeg :: "exec_result \<Rightarrow> string + unit" where
  "executeFFmpeg r =
     (case cb_error r of
        Some err \<Rightarrow>
          (if err_code err \<noteq> Some 0 \<and> \<not> str_includes (cb_stdout r) ''muxing overhead''
           then Inl (''FFmpeg failed: '' @
                     take 500 (str_or (cb_stderr r) (str_or (cb_stdout r) (err_message err))))
           else Inr ())
      | None \<Rightarrow> Inr ())"

subsection \<open>The job processor: processVideo\<close>

text \<open>The four object literals passed to \<open>.update\<close> (lines 147-154, 163-170, 216-224, 257-269).\<close>

definition skippedUpdate :: "env \<Rightarrow> metadata \<Rightarrow> update" where
  "skippedUpdate e md =
     \<lparr> set_remux_status = ''skipped'',
       set_remux_attempts = None,
       set_remuxed_at = None,
       set_remuxed_size = None,
       set_metadata = md(''skip_reason'' \<mapsto> JStr ''duration_too_short'',
                         ''skipped_at'' \<mapsto> JStr (iso_skipped e)) \<rparr>"

definition processingUpdate :: "env \<Rightarrow> metadata \<Rightarrow> int \<Rightarrow> update" where
  "processingUpdate e md attemptNumber =
     \<lparr> set_remux_status = ''processing'',
       set_remux_attempts = Some attemptNumber,
       set_remuxed_at = None,
       set_remuxed_size = None,
       set_metadata = md(''last_remux_attempt'' \<mapsto> JStr (iso_attempt e)) \<rparr>"

definition probedSkipUpdate :: "env \<Rightarrow> metadata \<Rightarrow> jsnum \<Rightarrow> update" where
  "probedSkipUpdate e md actualDuration =
     \<lparr> set_remux_status = ''skipped'',
       set_remux_attempts = None,
       set_remuxed_at = None,
       set_remuxed_size = None,
       set_metadata = md(''skip_reason'' \<mapsto> JStr ''duration_too_short'',
                         ''detected_duration'' \<mapsto> JNum actualDuration,
                         ''skipped_at'' \<mapsto> JStr (iso_skipped e)) \<rparr>"

definition completedUpdate :: "env \<Rightarrow> metadata \<Rightarrow> nat \<Rightarrow> nat \<Rightarrow> int \<Rightarrow> jsnum \<Rightarrow> update" where
  "completedUpdate e md inputSize outputSize savedBytes actualDuration =
     \<lparr> set_remux_status = ''completed'',
       set_remux_attempts = None,
       set_remuxed_at = Some (iso_remuxed e),
       set_remuxed_size = Some (int outputSize),
       set_metadata = md(''remux_processing_time_ms'' \<mapsto> JNum (Num (of_int (now_end e - now_start e))),
                         ''original_size'' \<mapsto> JNum (Num (of_nat inputSize)),
                         ''size_saved'' \<mapsto> JNum (Num (of_int savedBytes)),
                         ''compression_ratio'' \<mapsto> JStr (saved_percent e),
                         ''detected_duration'' \<mapsto> JNum actualDuration) \<rparr>"

text \<open>\<open>markAsFailed\<close> (lines 412-425): one update, with the object literal of lines 415-423.\<close>

definition failedUpdate :: "env \<Rightarrow> metadata \<Rightarrow> string \<Rightarrow> update" where
  "failedUpdate e existingMetadata reason =
     \<lparr> set_remux_status = ''failed'',
       set_remux_attempts = Some 3,
       set_remuxed_at = None,
       set_remuxed_size = None,
       set_metadata = existingMetadata(''remux_error'' \<mapsto> JStr reason,
                                       ''failed_at'' \<mapsto> JStr (iso_failed e)) \<rparr>"

definition markAsFailed :: "env \<Rightarrow> string \<Rightarrow> metadata \<Rightarrow> string \<Rightarrow> event" where
  "markAsFailed e videoId existingMetadata reason =
     DbUpdate videoId (failedUpdate e existingMetadata reason)"

text \<open>
  The guard of line 140, \<open>video.video_duration && video.video_duration <= 1\<close>:
  \<open>null\<close> and \<open>0\<close> are falsy.
\<close>

definition knownTooShort :: "packing_record \<Rightarrow> bool" where
  "knownTooShort video =
     (case video_duration video of
        None \<Rightarrow> False
      | Some d \<Rightarrow> d \<noteq> 0 \<and> d \<le> 1)"

text \<open>Lines 232-276: remux, size accounting, upload, the completed update, statistics.\<close>

definition remuxAndFinish :: "env \<Rightarrow> packing_record \<Rightarrow> metadata \<Rightarrow> nat \<Rightarrow> jsnum \<Rightarrow> unit step" where
  "remuxAndFinish e video md inputSize actualDuration =
     and_then (emit (Exec Ffmpeg)) (\<lambda>_.
     and_then (await (executeFFmpeg (ffmpeg e))) (\<lambda>_.
     and_then (await (stat_output e)) (\<lambda>outputSize.
     let savedBytes = int inputSize - int outputSize in
     and_then (uploadToR2 e (video_url video)) (\<lambda>_.
     and_then (emit (DbUpdate (row_id video)
                 (completedUpdate e md inputSize outputSize savedBytes actualDuration))) (\<lambda>_.
     and_then (emit (StatsIncr Processed)) (\<lambda>_.
     emit (StatsSaved savedBytes)))))))"

text \<open>
  Lines 206-229: the probe of the downloaded file, taken when the recorded duration is
  falsy. A probed duration of at most one second writes \<open>skipped\<close>, cleans up and
  returns.
\<close>

definition probeAndContinue :: "env \<Rightarrow> packing_record \<Rightarrow> metadata \<Rightarrow> nat \<Rightarrow> unit step" where
  "probeAndContinue e video md inputSize =
     and_then (getVideoDuration e) (\<lambda>actualDuration.
     if le_one actualDuration then
       and_then (emit (StatsIncr Skipped)) (\<lambda>_.
       and_then (emit (DbUpdate (row_id video) (probedSkipUpdate e md actualDuration))) (\<lambda>_.
       emit Cleanup))
     else remuxAndFinish e video md inputSize actualDuration)"

text \<open>
  The body of \<open>try\<close> (lines 176-276). The two \<open>return\<close> statements inside it end
  the step with \<open>Inr ()\<close>. \<open>!actualDuration\<close> holds when the recorded duration is
  \<open>null\<close> or \<open>0\<close>.
\<close>

definition tryBlock :: "env \<Rightarrow> packing_record \<Rightarrow> metadata \<Rightarrow> int \<Rightarrow> unit step" where
  "tryBlock e video md attemptNumber =
     and_then (checkR2File e (video_url video)) (\<lambda>exists.
     if \<not> exists then
       (if attemptNumber \<ge> 3
        then emit (markAsFailed e (row_id video) md ''File not found after 3 attempts'')
        else finished ())
     else
       and_then (downloadFromR2 e (video_url video)) (\<lambda>_.
       and_then (await (stat_input e)) (\<lambda>inputSize.
       (case video_duration video of
          None \<Rightarrow> probeAndContinue e video md inputSize
        | Some d \<Rightarrow>
            if d = 0 then probeAndContinue e video md inputSize
            else remuxAndFinish e video md inputSize (Num d)))))"

text \<open>The \<open>catch\<close> block (lines 278-284).\<close>

definition catchBlock :: "env \<Rightarrow> packing_record \<Rightarrow> metadata \<Rightarrow> int \<Rightarrow> string \<Rightarrow> event list" where
  "catchBlock e video md attemptNumber msg =
     [ConsoleError (''Failed: '' @ msg), StatsIncr Failed] @
     (if attemptNumber \<ge> 3 then [markAsFailed e (row_id video) md msg] else [])"

text \<open>
  \<open>processVideo\<close> (lines 131-289). \<open>metadata\<close> and \<open>attemptNumber\<close> are computed
  once, from the row as the discovery query returned it. The \<open>finally\<close> block runs the
  cleanup on every path that entered \<open>try\<close>.
\<close>

definition attemptNumber_of :: "packing_record \<Rightarrow> int" where
  "attemptNumber_of video = (case remux_attempts video of None \<Rightarrow> 0 | Some a \<Rightarrow> a) + 1"

definition metadata_of :: "packing_record \<Rightarrow> metadata" where
  "metadata_of video = (case metadata video of None \<Rightarrow> Map.empty | Some m \<Rightarrow> m)"

definition processVideo :: "env \<Rightarrow> packing_record \<Rightarrow> event list" where
  "processVideo e video =
     (let md = metadata_of video;
          attemptNumber = attemptNumber_of video
      in if knownTooShort video then
           [StatsIncr Skipped, DbUpdate (row_id video) (skippedUpdate e md)]
         else
           DbUpdate (row_id video) (processingUpdate e md attemptNumber) #
           (case tryBlock e video md attemptNumber of
              (evs, Inr _) \<Rightarrow> evs
            | (evs, Inl msg) \<Rightarrow> evs @ catchBlock e video md attemptNumber msg) @
           [Cleanup])"

subsection \<open>The job store\<close>

text \<open>
  \<open>.update(u).eq('id', i)\<close> sets, in every row whose id is \<open>i\<close>, the columns that
  \<open>u\<close> names and leaves the other columns as they are. The column \<open>metadata\<close>
  holds one JSON value: the update replaces it by the object it is given.
\<close>

definition apply_update :: "update \<Rightarrow> packing_record \<Rightarrow> packing_record" where
  "apply_update u r =
     r\<lparr> remux_status := Some (set_remux_status u),
        remux_attempts := (case set_remux_attempts u of None \<Rightarrow> remux_attempts r | Some a \<Rightarrow> Some a),
        remuxed_at := (case set_remuxed_at u of None \<Rightarrow> remuxed_at r | Some t \<Rightarrow> Some t),
        remuxed_size := (case set_remuxed_size u of None \<Rightarrow> remuxed_size r | Some n \<Rightarrow> Some n),
        metadata := Some (set_metadata u) \<rparr>"

fun store_step :: "event \<Rightarrow> packing_record \<Rightarrow> packing_record" where
  "store_step (DbUpdate i u) r = (if row_id r = i then apply_update u r else r)"
| "store_step _ r = r"

text \<open>The row after the store has applied the updates of an event list, in order.\<close>

definition stored_after :: "event list \<Rightarrow> packing_record \<Rightarrow> packing_record" where
  "stored_after evs r = fold store_step evs r"

text \<open>
  The filters of the query builder, with the meaning they have in SQL: a comparison with
  a \<open>NULL\<close> column selects nothing.
\<close>

definition eq_filter :: "('r \<Rightarrow> 'v option) \<Rightarrow> 'v \<Rightarrow> 'r list \<Rightarrow> 'r list" where
  "eq_filter col v rows = filter (\<lambda>r. case col r of None \<Rightarrow> False | Some x \<Rightarrow> x = v) rows"

definition lt_filter :: "('r \<Rightarrow> 'v::linorder option) \<Rightarrow> 'v \<Rightarrow> 'r list \<Rightarrow> 'r list" where
  "lt_filter col v rows = filter (\<lambda>r. case col r of None \<Rightarrow> False | Some x \<Rightarrow> x < v) rows"

definition gt_filter :: "('r \<Rightarrow> 'v::linorder option) \<Rightarrow> 'v \<Rightarrow> 'r list \<Rightarrow> 'r list" where
  "gt_filter col v rows = filter (\<lambda>r. case col r of None \<Rightarrow> False | Some x \<Rightarrow> x > v) rows"

definition order_ascending :: "('r \<Rightarrow> 'k::linorder) \<Rightarrow> 'r list \<Rightarrow> 'r list" where
  "order_ascending col rows = sort_key col rows"

definition limit :: "nat \<Rightarrow> 'r list \<Rightarrow> 'r list" where
  "limit n rows = take n rows"

text \<open>
  The result object of the awaited query (lines 97-105). The argument is \<open>Inl msg\<close>
  when the request fails with message \<open>msg\<close>, and \<open>Inr table\<close> with the rows of the
  table otherwise.
\<close>

record query_response =
  resp_data :: "packing_record list option"
  resp_error :: "string option"

definition discoveryQuery :: "string + packing_record list \<Rightarrow> query_response" where
  "discoveryQuery db =
     (case db of
        Inl msg \<Rightarrow> \<lparr> resp_data = None, resp_error = Some msg \<rparr>
      | Inr table \<Rightarrow>
          \<lparr> resp_data = Some
              (limit 5
              (order_ascending created_at
              (gt_filter video_duration 1
              (lt_filter remux_attempts 3
              (eq_filter remux_status ''pending''
              (eq_filter (\<lambda>r. Some (status r)) ''completed'' table)))))),
            resp_error = None \<rparr>)"

subsection \<open>The batch dispatcher: processVideos\<close>

text \<open>\<open>xs.slice(i, j)\<close> for \<open>0 \<le> i \<le> j\<close>; the end is clipped to the length.\<close>

definition slice :: "nat \<Rightarrow> nat \<Rightarrow> 'a list \<Rightarrow> 'a list" where
  "slice i j xs = take (j - i) (drop i xs)"

definition batchSize :: nat where
  "batchSize = 3"

text \<open>
  \<open>Promise.allSettled(batch.map(task))\<close>. \<open>batch.map\<close> calls the task on every job
  of the batch, in list order: each call starts the job and returns its promise. The jobs then
  run interleaved and settle in the order in which they finish; \<open>finish\<close> gives each
  job the time at which its promise settles, so any order of completion can be chosen. The
  awaited promise is fulfilled once the last job has settled, with one outcome for every
  job, fulfilled or rejected, in the order of the batch; it never rejects itself. A task is
  a function that returns \<open>Inl msg\<close> when its promise rejects. The result is the
  order of starts and settlements, and the outcomes.
\<close>

datatype 'b settled = Fulfilled 'b | Rejected string

datatype 'a task_event = Launch 'a | Settle 'a

definition allSettled ::
  "('a \<Rightarrow> nat) \<Rightarrow> ('a \<Rightarrow> string + 'b) \<Rightarrow> 'a list \<Rightarrow> 'a task_event list \<times> 'b settled list" where
  "allSettled finish task batch =
     (map Launch batch @ map Settle (sort_key finish batch),
      map (\<lambda>v. case task v of Inl msg \<Rightarrow> Rejected msg | Inr x \<Rightarrow> Fulfilled x) batch)"

text \<open>
  The loop of lines 121-124, from index \<open>i\<close> on: \<open>body\<close> is run on one slice of
  \<open>batchSize\<close> jobs after the other, each run awaited before the next slice is taken.
\<close>

function batch_loop :: "('a list \<Rightarrow> 'r) \<Rightarrow> nat \<Rightarrow> 'a list \<Rightarrow> 'r list" where
  "batch_loop body i videos =
     (if i < length videos
      then body (slice i (i + batchSize) videos) # batch_loop body (i + batchSize) videos
      else [])"
  by pat_completeness auto
termination
  by (relation "measure (\<lambda>(body, i, videos). length videos - i)") (auto simp: batchSize_def)

text \<open>
  \<open>processVideos\<close> (lines 91-129): the console errors of the cycle and, for every
  batch, the order of starts and settlements and the settled outcomes.
  \<open>processVideo\<close> catches what its steps throw, so its promise is fulfilled with the
  events of the job. \<open>envs\<close> gives each job its environment.
\<close>

definition processVideos ::
  "(packing_record \<Rightarrow> nat) \<Rightarrow> (packing_record \<Rightarrow> env) \<Rightarrow> string + packing_record list
     \<Rightarrow> event list \<times> (packing_record task_event list \<times> event list settled list) list" where
  "processVideos finish envs db =
     (let resp = discoveryQuery db
      in case resp_error resp of
           Some msg \<Rightarrow> ([ConsoleError (''Database query error: '' @ msg)], [])
         | None \<Rightarrow>
             (case resp_data resp of
                None \<Rightarrow> ([], [])
              | Some videos \<Rightarrow>
                  if videos = [] then ([], [])
                  else ([], batch_loop
                              (allSettled finish (\<lambda>video. Inr (processVideo (envs video) video)))
                              0 videos)))"

text \<open>
  Every event of a cycle: its console errors, then the events of its jobs. The table
  after the store has applied the updates of a cycle.
\<close>

fun settled_events :: "event list settled \<Rightarrow> event list" where
  "settled_events (Fulfilled evs) = evs"
| "settled_events (Rejected msg) = []"

definition cycle_events ::
  "event list \<times> ('a task_event list \<times> event list settled list) list \<Rightarrow> event list" where
  "cycle_events c = fst c @ concat (map settled_events (concat (map snd (snd c))))"

definition run_cycle ::
  "(packing_record \<Rightarrow> nat) \<Rightarrow> (packing_record \<Rightarrow> env) \<Rightarrow> packing_record list
     \<Rightarrow> packing_record list" where
  "run_cycle finish envs table =
     map (stored_after (cycle_events (processVideos finish envs (Inr table)))) table"

text \<open>
  The jobs started and the jobs settled in a trace, in order, and the number of jobs
  started and not yet settled at its end.
\<close>

fun launched :: "'a task_event list \<Rightarrow> 'a list" where
  "launched [] = []"
| "launched (Launch v # t) = v # launched t"
| "launched (Settle v # t) = launched t"

fun settled_jobs :: "'a task_event list \<Rightarrow> 'a list" where
  "settled_jobs [] = []"
| "settled_jobs (Launch v # t) = settled_jobs t"
| "settled_jobs (Settle v # t) = v # settled_jobs t"

fun in_flight :: "'a task_event list \<Rightarrow> int" where
  "in_flight [] = 0"
| "in_flight (Launch v # t) = 1 + in_flight t"
| "in_flight (Settle v # t) = in_flight t - 1"

subsection \<open>Observations, the claims' own words, and two concrete inputs\<close>

text \<open>The updates that an event list sends to the job store, in order.\<close>

fun db_updates :: "event list \<Rightarrow> update list" where
  "db_updates [] = []"
| "db_updates (DbUpdate i u # evs) = u # db_updates evs"
| "db_updates (ev # evs) = db_updates evs"

text \<open>
  The attempt counter never goes down: starting from the stored value \<open>a\<close>, every
  update that sets \<open>remux_attempts\<close> sets it to at least the value it had.
\<close>

fun attempts_monotone :: "int \<Rightarrow> update list \<Rightarrow> bool" where
  "attempts_monotone a [] = True"
| "attempts_monotone a (u # us) =
     (case set_remux_attempts u of
        None \<Rightarrow> attempts_monotone a us
      | Some b \<Rightarrow> a \<le> b \<and> attempts_monotone b us)"

text \<open>
  The exit status that the callback of \<open>exec\<close> sees: \<open>exec\<close> passes no error
  exactly when the process ended with status \<open>0\<close>. A real failure, in the words of the
  specification: the exit status is not zero and the marker is not in the output.
\<close>

definition exit_status :: "exec_result \<Rightarrow> int option" where
  "exit_status r = (case cb_error r of None \<Rightarrow> Some 0 | Some err \<Rightarrow> err_code err)"

definition real_failure :: "exec_result \<Rightarrow> bool" where
  "real_failure r = (exit_status r \<noteq> Some 0 \<and> \<not> sublist ''muxing overhead'' (cb_stdout r))"

text \<open>
  An eligible job, in the words of the specification: upload completed, remux status
  pending, fewer than three attempts, and a recorded duration above one second.
\<close>

definition eligible :: "packing_record \<Rightarrow> bool" where
  "eligible r =
     (status r = ''completed'' \<and> remux_status r = Some ''pending'' \<and>
      (case remux_attempts r of None \<Rightarrow> False | Some a \<Rightarrow> a < 3) \<and>
      (case video_duration r of None \<Rightarrow> False | Some d \<Rightarrow> 1 < d))"

text \<open>
  The job of the end-to-end scenario of the specification, as the upload confirmation
  of \<open>index.js\<close> inserts it, and an environment in which every step succeeds and the
  remuxed file (1200 bytes) is larger than the input (1000 bytes).
\<close>

definition job_A :: packing_record where
  "job_A =
     \<lparr> row_id = ''A'', status = ''completed'', remux_status = Some ''pending'',
       remux_attempts = Some 0, video_duration = Some 45,
       video_url = ''recordings/x.webm'', created_at = 1,
       remuxed_at = None, remuxed_size = None,
       metadata = Some [''uploaded_from'' \<mapsto> JStr ''worker_app''] \<rparr>"

definition env_success :: env where
  "env_success =
     \<lparr> head_object = Inr (Some 1000), get_object = None, signed_url = None,
       wget = None, curl = None, stat_input = Inr 1000, ffprobe = Inr (Num 45),
       ffmpeg = \<lparr> cb_error = None, cb_stdout = ''muxing overhead: 0.5%'', cb_stderr = [] \<rparr>,
       stat_output = Inr 1200, read_output = None, put_object = None,
       iso_skipped = ''2025-01-01T00:00:03Z'', iso_attempt = ''2025-01-01T00:00:01Z'',
       iso_remuxed = ''2025-01-01T00:00:04Z'', iso_failed = ''2025-01-01T00:00:05Z'',
       now_start = 2000, now_end = 3500, saved_percent = ''-20.00'' \<rparr>"

definition ffmpeg_broken :: exec_result where
  "ffmpeg_broken =
     \<lparr> cb_error = Some \<lparr> err_code = Some 1, err_message = ''Command failed'' \<rparr>,
       cb_stdout = ''Invalid data'', cb_stderr = [] \<rparr>"

text \<open>The same environment, with an object of zero bytes in the store.\<close>

definition env_empty_object :: env where
  "env_empty_object = env_success\<lparr>head_object := Inr (Some 0)\<rparr>"

section \<open>Properties\<close>

subsection \<open>Steps and their events\<close>

lemma fst_and_then:
  "fst (and_then m f) = fst m @ (case snd m of Inl msg \<Rightarrow> [] | Inr x \<Rightarrow> fst (f x))"
  by (cases m) (auto simp: and_then_def split: sum.splits prod.splits)

lemma snd_and_then:
  "snd (and_then m f) = (case snd m of Inl msg \<Rightarrow> Inl msg | Inr x \<Rightarrow> snd (f x))"
  by (cases m) (auto simp: and_then_def split: sum.splits prod.splits)

lemma fst_emit: "fst (emit ev) = [ev]"
  by (simp add: emit_def)

lemma snd_emit: "snd (emit ev) = Inr ()"
  by (simp add: emit_def)

lemma fst_await: "fst (await r) = []"
  by (simp add: await_def)

lemma snd_await: "snd (await r) = r"
  by (simp add: await_def)

lemma fst_finished: "fst (finished x) = []"
  by (simp add: finished_def)

lemma snd_finished: "snd (finished x) = Inr x"
  by (simp add: finished_def)

lemmas step_simps = fst_and_then snd_and_then fst_emit snd_emit fst_await snd_await
  fst_finished snd_finished

lemma fst_checkR2File: "fst (checkR2File e key) = [HeadObject key]"
  by (simp add: checkR2File_def split: sum.splits option.splits)

lemma snd_checkR2File:
  "snd (checkR2File e key) = Inr (\<exists>n. head_object e = Inr (Some n) \<and> 0 < n)"
  by (simp add: checkR2File_def split: sum.splits option.splits)

lemma db_updates_append: "db_updates (xs @ ys) = db_updates xs @ db_updates ys"
  by (induction xs rule: db_updates.induct) auto

lemma db_updates_downloadFromR2: "db_updates (fst (downloadFromR2 e key)) = []"
  by (simp add: downloadFromR2_def split: option.splits)

lemma db_updates_uploadToR2: "db_updates (fst (uploadToR2 e key)) = []"
  by (simp add: uploadToR2_def split: option.splits)

lemma db_updates_getVideoDuration: "db_updates (fst (getVideoDuration e)) = []"
  by (simp add: getVideoDuration_def split: sum.splits)

lemmas quiet = db_updates_downloadFromR2 db_updates_uploadToR2
  db_updates_getVideoDuration db_updates_append

lemma processVideo_alt:
  "processVideo e video =
     (if knownTooShort video then
        [StatsIncr Skipped, DbUpdate (row_id video) (skippedUpdate e (metadata_of video))]
      else
        DbUpdate (row_id video) (processingUpdate e (metadata_of video) (attemptNumber_of video)) #
        fst (tryBlock e video (metadata_of video) (attemptNumber_of video)) @
        (case snd (tryBlock e video (metadata_of video) (attemptNumber_of video)) of
           Inr _ \<Rightarrow> []
         | Inl msg \<Rightarrow> catchBlock e video (metadata_of video) (attemptNumber_of video) msg) @
        [Cleanup])"
  by (simp add: processVideo_def Let_def split: prod.splits sum.splits)

subsection \<open>The store\<close>

lemma stored_after_Nil: "stored_after [] r = r"
  by (simp add: stored_after_def)

lemma stored_after_Cons: "stored_after (ev # evs) r = stored_after evs (store_step ev r)"
  by (simp add: stored_after_def)

lemma stored_after_append: "stored_after (xs @ ys) r = stored_after ys (stored_after xs r)"
  by (simp add: stored_after_def)

lemma stored_after_quiet: "db_updates evs = [] \<Longrightarrow> stored_after evs r = r"
  by (induction evs arbitrary: r rule: db_updates.induct) (simp_all add: stored_after_def)

lemmas store_simps = stored_after_Nil stored_after_Cons stored_after_append apply_update_def

subsection \<open>Substrings\<close>

lemma str_includes_sublist: "str_includes s t = sublist t s"
  by (induction s) (auto simp: sublist_Cons_right)

subsection \<open>The transcode invoker\<close>

text \<open>
  C6. \<open>executeFFmpeg\<close> rejects exactly when the exit status is not zero and the
  marker \<open>muxing overhead\<close> is absent from the standard output; what is on the
  diagnostic stream does not decide. The rejection carries \<open>FFmpeg failed: \<close> and the
  first 500 characters of the diagnostic text; in every other case the promise resolves.
\<close>

theorem executeFFmpeg_real_failure:
  "((\<exists>m. executeFFmpeg r = Inl m) = real_failure r) \<and>
   ((executeFFmpeg r = Inr ()) = (\<not> real_failure r)) \<and>
   (\<forall>m. executeFFmpeg r = Inl m \<longrightarrow>
      (\<exists>err. cb_error r = Some err \<and>
         m = ''FFmpeg failed: '' @
             take 500 (str_or (cb_stderr r) (str_or (cb_stdout r) (err_message err))) \<and>
         length m \<le> 515))"
  by (auto simp: executeFFmpeg_def real_failure_def exit_status_def str_includes_sublist
      split: option.splits)

theorem executeFFmpeg_real_failure_witness:
  "real_failure ffmpeg_broken \<and>
   executeFFmpeg ffmpeg_broken = Inl ''FFmpeg failed: Invalid data'' \<and>
   \<not> real_failure (ffmpeg env_success) \<and>
   executeFFmpeg (ffmpeg env_success) = Inr ()"
  using executeFFmpeg_real_failure [of ffmpeg_broken]
    executeFFmpeg_real_failure [of "ffmpeg env_success"]
  by (simp add: executeFFmpeg_def ffmpeg_broken_def env_success_def str_or_def)

text \<open>
  C9. \<open>getVideoDuration\<close> always returns: a failing inspection command gives \<open>0\<close>.
  In \<open>processVideo\<close>, a job without a usable recorded duration whose probe fails is
  written \<open>skipped\<close>, and nothing is thrown.
\<close>

theorem getVideoDuration_never_throws:
  "(\<exists>evs d. getVideoDuration e = (evs, Inr d)) \<and>
   (\<forall>msg. ffprobe e = Inl msg \<longrightarrow> snd (getVideoDuration e) = Inr (Num 0)) \<and>
   (\<forall>msg n.
      (video_duration video = None \<or> video_duration video = Some 0) \<and>
      snd (checkR2File e (video_url video)) = Inr True \<and>
      snd (downloadFromR2 e (video_url video)) = Inr () \<and>
      stat_input e = Inr n \<and> ffprobe e = Inl msg \<longrightarrow>
      processVideo e video =
        DbUpdate (row_id video)
          (processingUpdate e (metadata_of video) (attemptNumber_of video)) #
        HeadObject (video_url video) #
        fst (downloadFromR2 e (video_url video)) @
        [Exec Ffprobe, ConsoleWarn msg, StatsIncr Skipped,
         DbUpdate (row_id video) (probedSkipUpdate e (metadata_of video) (Num 0)),
         Cleanup, Cleanup] \<and>
      remux_status (stored_after (processVideo e video) video) = Some ''skipped'')"
proof (intro conjI allI impI)
  show "\<exists>evs d. getVideoDuration e = (evs, Inr d)"
    by (simp add: getVideoDuration_def split: sum.splits)
next
  fix msg assume "ffprobe e = Inl msg"
  then show "snd (getVideoDuration e) = Inr (Num 0)"
    by (simp add: getVideoDuration_def)
next
  fix msg n
  assume h: "(video_duration video = None \<or> video_duration video = Some 0) \<and>
      snd (checkR2File e (video_url video)) = Inr True \<and>
      snd (downloadFromR2 e (video_url video)) = Inr () \<and>
      stat_input e = Inr n \<and> ffprobe e = Inl msg"
  then have short: "\<not> knownTooShort video"
    by (auto simp: knownTooShort_def)
  from h have probe: "getVideoDuration e = ([Exec Ffprobe, ConsoleWarn msg], Inr (Num 0))"
    by (simp add: getVideoDuration_def)
  from h probe
  have tb: "tryBlock e video (metadata_of video) (attemptNumber_of video) =
      (HeadObject (video_url video) # fst (downloadFromR2 e (video_url video)) @
         [Exec Ffprobe, ConsoleWarn msg, StatsIncr Skipped,
          DbUpdate (row_id video) (probedSkipUpdate e (metadata_of video) (Num 0)), Cleanup],
       Inr ())"
    by (auto simp: prod_eq_iff tryBlock_def probeAndContinue_def step_simps fst_checkR2File)
  show tr: "processVideo e video =
        DbUpdate (row_id video)
          (processingUpdate e (metadata_of video) (attemptNumber_of video)) #
        HeadObject (video_url video) #
        fst (downloadFromR2 e (video_url video)) @
        [Exec Ffprobe, ConsoleWarn msg, StatsIncr Skipped,
         DbUpdate (row_id video) (probedSkipUpdate e (metadata_of video) (Num 0)),
         Cleanup, Cleanup]"
    using short tb by (simp add: processVideo_alt)
  show "remux_status (stored_after (processVideo e video) video) = Some ''skipped''"
    unfolding tr
    by (simp add: store_simps stored_after_quiet db_updates_downloadFromR2 probedSkipUpdate_def)
qed

theorem getVideoDuration_never_throws_witness:
  "remux_status
     (stored_after
        (processVideo (env_success\<lparr>ffprobe := Inl ''ffprobe: not found''\<rparr>)
           (job_A\<lparr>video_duration := None\<rparr>))
        (job_A\<lparr>video_duration := None\<rparr>)) = Some ''skipped'' \<and>
   snd (getVideoDuration (env_success\<lparr>ffprobe := Inl ''ffprobe: not found''\<rparr>)) = Inr (Num 0)"
  using getVideoDuration_never_throws
    [of "env_success\<lparr>ffprobe := Inl ''ffprobe: not found''\<rparr>" "job_A\<lparr>video_duration := None\<rparr>"]
  by (simp add: env_success_def job_A_def checkR2File_def downloadFromR2_def
      getVideoDuration_def store_simps probedSkipUpdate_def processingUpdate_def)

lemma tryBlock_absent:
  assumes "snd (checkR2File e (video_url video)) = Inr False"
  shows "tryBlock e video md n =
     (HeadObject (video_url video) #
        (if 3 \<le> n then [markAsFailed e (row_id video) md ''File not found after 3 attempts''] else []),
      Inr ())"
  using assms by (simp add: prod_eq_iff tryBlock_def step_simps fst_checkR2File)

subsection \<open>The job processor\<close>

lemma uploadToR2_success:
  "snd (uploadToR2 e key) = Inr () \<Longrightarrow> fst (uploadToR2 e key) = [PutObject key]"
  by (simp add: uploadToR2_def split: option.splits)

lemma remuxAndFinish_success:
  assumes "executeFFmpeg (ffmpeg e) = Inr ()" and "stat_output e = Inr b"
    and "snd (uploadToR2 e (video_url video)) = Inr ()"
  shows "remuxAndFinish e video md a actual =
     ([Exec Ffmpeg, PutObject (video_url video),
       DbUpdate (row_id video) (completedUpdate e md a b (int a - int b) actual),
       StatsIncr Processed, StatsSaved (int a - int b)], Inr ())"
  using assms
  by (simp add: prod_eq_iff remuxAndFinish_def step_simps Let_def uploadToR2_success)

lemmas eval_simps = store_simps processingUpdate_def completedUpdate_def
  probedSkipUpdate_def skippedUpdate_def failedUpdate_def markAsFailed_def metadata_of_def
  attemptNumber_of_def knownTooShort_def env_success_def job_A_def checkR2File_def
  downloadFromR2_def uploadToR2_def getVideoDuration_def executeFFmpeg_def

text \<open>
  C7. When every step succeeds and the output file is larger than the input, the
  processor still puts the output under the key the job came with and still writes
  \<open>completed\<close>, with \<open>remuxed_at\<close>, \<open>remuxed_size\<close> and a negative
  \<open>metadata.size_saved\<close>.
\<close>

theorem larger_output_is_uploaded_and_completed:
  assumes found: "snd (checkR2File e (video_url video)) = Inr True"
    and downloaded: "snd (downloadFromR2 e (video_url video)) = Inr ()"
    and inp: "stat_input e = Inr a"
    and duration:
      "(\<exists>d. video_duration video = Some d \<and> 1 < d \<and> actual = Num d \<and> probe = []) \<or>
       ((video_duration video = None \<or> video_duration video = Some 0) \<and>
        getVideoDuration e = (probe, Inr actual) \<and> \<not> le_one actual)"
    and remuxed: "executeFFmpeg (ffmpeg e) = Inr ()"
    and outp: "stat_output e = Inr b"
    and larger: "a < b"
    and uploaded: "snd (uploadToR2 e (video_url video)) = Inr ()"
    and row: "row_id r = row_id video"
  shows "processVideo e video =
           DbUpdate (row_id video)
             (processingUpdate e (metadata_of video) (attemptNumber_of video)) #
           HeadObject (video_url video) #
           fst (downloadFromR2 e (video_url video)) @ probe @
           [Exec Ffmpeg, PutObject (video_url video),
            DbUpdate (row_id video)
              (completedUpdate e (metadata_of video) a b (int a - int b) actual),
            StatsIncr Processed, StatsSaved (int a - int b), Cleanup] \<and>
         remux_status (stored_after (processVideo e video) r) = Some ''completed'' \<and>
         remuxed_at (stored_after (processVideo e video) r) = Some (iso_remuxed e) \<and>
         remuxed_size (stored_after (processVideo e video) r) = Some (int b) \<and>
         metadata_of (stored_after (processVideo e video) r) ''size_saved'' =
           Some (JNum (Num (of_int (int a - int b)))) \<and>
         int a - int b < 0"
proof -
  let ?md = "metadata_of video"
  from duration have notshort: "\<not> knownTooShort video"
    by (auto simp: knownTooShort_def)
  have fin: "remuxAndFinish e video ?md a actual =
     ([Exec Ffmpeg, PutObject (video_url video),
       DbUpdate (row_id video) (completedUpdate e ?md a b (int a - int b) actual),
       StatsIncr Processed, StatsSaved (int a - int b)], Inr ())"
    by (rule remuxAndFinish_success [OF remuxed outp uploaded])
  have tb: "tryBlock e video ?md (attemptNumber_of video) =
     (HeadObject (video_url video) # fst (downloadFromR2 e (video_url video)) @ probe @
       [Exec Ffmpeg, PutObject (video_url video),
        DbUpdate (row_id video) (completedUpdate e ?md a b (int a - int b) actual),
        StatsIncr Processed, StatsSaved (int a - int b)], Inr ())"
    using duration
  proof
    assume "\<exists>d. video_duration video = Some d \<and> 1 < d \<and> actual = Num d \<and> probe = []"
    then obtain d where d: "video_duration video = Some d" "1 < d" "actual = Num d" "probe = []"
      by blast
    with found downloaded inp fin show ?thesis
      by (simp add: prod_eq_iff tryBlock_def step_simps fst_checkR2File)
  next
    assume p: "(video_duration video = None \<or> video_duration video = Some 0) \<and>
        getVideoDuration e = (probe, Inr actual) \<and> \<not> le_one actual"
    with fin have "probeAndContinue e video ?md a =
       (probe @ [Exec Ffmpeg, PutObject (video_url video),
         DbUpdate (row_id video) (completedUpdate e ?md a b (int a - int b) actual),
         StatsIncr Processed, StatsSaved (int a - int b)], Inr ())"
      by (simp add: prod_eq_iff probeAndContinue_def step_simps)
    with p found downloaded inp show ?thesis
      by (auto simp: prod_eq_iff tryBlock_def step_simps fst_checkR2File)
  qed
  have tr: "processVideo e video =
           DbUpdate (row_id video) (processingUpdate e ?md (attemptNumber_of video)) #
           HeadObject (video_url video) #
           fst (downloadFromR2 e (video_url video)) @ probe @
           [Exec Ffmpeg, PutObject (video_url video),
            DbUpdate (row_id video) (completedUpdate e ?md a b (int a - int b) actual),
            StatsIncr Processed, StatsSaved (int a - int b), Cleanup]"
    using notshort tb by (simp add: processVideo_alt)
  have q: "db_updates probe = []"
    using duration db_updates_getVideoDuration [of e] by auto
  have st: "stored_after (processVideo e video) r =
      apply_update (completedUpdate e ?md a b (int a - int b) actual)
        (apply_update (processingUpdate e ?md (attemptNumber_of video)) r)"
    unfolding tr using row
    by (simp add: stored_after_Cons stored_after_append stored_after_Nil
        stored_after_quiet [OF db_updates_downloadFromR2] stored_after_quiet [OF q]
        apply_update_def)
  show ?thesis
    unfolding st using larger tr
    by (simp add: apply_update_def completedUpdate_def metadata_of_def)
qed

theorem larger_output_is_uploaded_and_completed_witness:
  "remux_status (stored_after (processVideo env_success job_A) job_A) = Some ''completed'' \<and>
   remuxed_size (stored_after (processVideo env_success job_A) job_A) = Some 1200 \<and>
   metadata_of (stored_after (processVideo env_success job_A) job_A) ''size_saved'' =
     Some (JNum (Num (- 200))) \<and>
   PutObject ''recordings/x.webm'' \<in> set (processVideo env_success job_A)"
  using larger_output_is_uploaded_and_completed
    [of env_success job_A 1000 "Num 45" "[]" 1200 job_A]
  by (simp add: eval_simps)

lemmas run_simps = processVideo_alt tryBlock_def probeAndContinue_def remuxAndFinish_def
  catchBlock_def step_simps Let_def eval_simps

lemma probeAndContinue_short:
  assumes "snd (getVideoDuration e) = Inr d" and "le_one d"
  shows "probeAndContinue e video md a =
     (fst (getVideoDuration e) @
        [StatsIncr Skipped, DbUpdate (row_id video) (probedSkipUpdate e md d), Cleanup],
      Inr ())"
  using assms by (simp add: prod_eq_iff probeAndContinue_def step_simps)

text \<open>
  C1, as the code has it. A recorded duration that is not zero and at most one second
  is skipped before the claim step: the only request is the \<open>skipped\<close> update, and the
  attempt counter of the row stays as it was. A job whose recorded duration is \<open>null\<close>
  or \<open>0\<close> is claimed and downloaded; when the probe of the downloaded file then
  gives at most one second, the job is written \<open>skipped\<close> with the detected duration.
  Neither path writes \<open>completed\<close>.
\<close>

theorem short_videos_are_skipped:
  "(\<forall>d (r::packing_record). video_duration video = Some d \<and> d \<noteq> 0 \<and> d \<le> 1 \<and> row_id r = row_id video \<longrightarrow>
      processVideo e video =
        [StatsIncr Skipped, DbUpdate (row_id video) (skippedUpdate e (metadata_of video))] \<and>
      set_metadata (skippedUpdate e (metadata_of video)) ''skip_reason'' =
        Some (JStr ''duration_too_short'') \<and>
      map set_remux_status (db_updates (processVideo e video)) = [''skipped''] \<and>
      remux_status (stored_after (processVideo e video) r) = Some ''skipped'' \<and>
      remux_attempts (stored_after (processVideo e video) r) = remux_attempts r) \<and>
   (\<forall>n d (r::packing_record).
      (video_duration video = None \<or> video_duration video = Some 0) \<and>
      snd (checkR2File e (video_url video)) = Inr True \<and>
      snd (downloadFromR2 e (video_url video)) = Inr () \<and>
      stat_input e = Inr n \<and>
      snd (getVideoDuration e) = Inr d \<and> le_one d \<and> row_id r = row_id video \<longrightarrow>
      processVideo e video =
        DbUpdate (row_id video)
          (processingUpdate e (metadata_of video) (attemptNumber_of video)) #
        HeadObject (video_url video) #
        fst (downloadFromR2 e (video_url video)) @ fst (getVideoDuration e) @
        [StatsIncr Skipped,
         DbUpdate (row_id video) (probedSkipUpdate e (metadata_of video) d),
         Cleanup, Cleanup] \<and>
      set_metadata (probedSkipUpdate e (metadata_of video) d) ''skip_reason'' =
        Some (JStr ''duration_too_short'') \<and>
      set_metadata (probedSkipUpdate e (metadata_of video) d) ''detected_duration'' =
        Some (JNum d) \<and>
      map set_remux_status (db_updates (processVideo e video)) = [''processing'', ''skipped''] \<and>
      remux_status (stored_after (processVideo e video) r) = Some ''skipped'')"
proof (intro conjI allI impI)
  fix d and r :: packing_record
  assume h: "video_duration video = Some d \<and> d \<noteq> 0 \<and> d \<le> 1 \<and> row_id r = row_id video"
  then have short: "knownTooShort video"
    by (simp add: knownTooShort_def)
  then show tr: "processVideo e video =
        [StatsIncr Skipped, DbUpdate (row_id video) (skippedUpdate e (metadata_of video))]"
    by (simp add: processVideo_alt)
  show "set_metadata (skippedUpdate e (metadata_of video)) ''skip_reason'' =
        Some (JStr ''duration_too_short'')"
    by (simp add: skippedUpdate_def)
  show "map set_remux_status (db_updates (processVideo e video)) = [''skipped'']"
    unfolding tr by (simp add: skippedUpdate_def)
  from h show "remux_status (stored_after (processVideo e video) r) = Some ''skipped''"
    unfolding tr by (simp add: store_simps skippedUpdate_def)
  from h show "remux_attempts (stored_after (processVideo e video) r) = remux_attempts r"
    unfolding tr by (simp add: store_simps skippedUpdate_def)
next
  fix n d and r :: packing_record
  assume h: "(video_duration video = None \<or> video_duration video = Some 0) \<and>
      snd (checkR2File e (video_url video)) = Inr True \<and>
      snd (downloadFromR2 e (video_url video)) = Inr () \<and>
      stat_input e = Inr n \<and>
      snd (getVideoDuration e) = Inr d \<and> le_one d \<and> row_id r = row_id video"
  then have notshort: "\<not> knownTooShort video"
    by (auto simp: knownTooShort_def)
  from h have pc: "probeAndContinue e video (metadata_of video) n =
     (fst (getVideoDuration e) @
        [StatsIncr Skipped, DbUpdate (row_id video) (probedSkipUpdate e (metadata_of video) d),
         Cleanup],
      Inr ())"
    by (simp add: probeAndContinue_short)
  from h pc have tb: "tryBlock e video (metadata_of video) (attemptNumber_of video) =
     (HeadObject (video_url video) # fst (downloadFromR2 e (video_url video)) @
        fst (getVideoDuration e) @
        [StatsIncr Skipped, DbUpdate (row_id video) (probedSkipUpdate e (metadata_of video) d),
         Cleanup],
      Inr ())"
    by (auto simp: prod_eq_iff tryBlock_def step_simps fst_checkR2File)
  show tr: "processVideo e video =
        DbUpdate (row_id video)
          (processingUpdate e (metadata_of video) (attemptNumber_of video)) #
        HeadObject (video_url video) #
        fst (downloadFromR2 e (video_url video)) @ fst (getVideoDuration e) @
        [StatsIncr Skipped,
         DbUpdate (row_id video) (probedSkipUpdate e (metadata_of video) d),
         Cleanup, Cleanup]"
    using notshort tb by (simp add: processVideo_alt)
  show "set_metadata (probedSkipUpdate e (metadata_of video) d) ''skip_reason'' =
        Some (JStr ''duration_too_short'')"
    by (simp add: probedSkipUpdate_def)
  show "set_metadata (probedSkipUpdate e (metadata_of video) d) ''detected_duration'' =
        Some (JNum d)"
    by (simp add: probedSkipUpdate_def)
  show "map set_remux_status (db_updates (processVideo e video)) = [''processing'', ''skipped'']"
    unfolding tr by (simp add: quiet probedSkipUpdate_def processingUpdate_def)
  from h show "remux_status (stored_after (processVideo e video) r) = Some ''skipped''"
    unfolding tr
    by (simp add: stored_after_Cons stored_after_append stored_after_Nil
        stored_after_quiet [OF db_updates_downloadFromR2]
        stored_after_quiet [OF db_updates_getVideoDuration]
        apply_update_def probedSkipUpdate_def)
qed

theorem short_videos_are_skipped_witness:
  "processVideo env_success (job_A\<lparr>video_duration := Some (1 / 2)\<rparr>) =
     [StatsIncr Skipped,
      DbUpdate ''A'' (skippedUpdate env_success (metadata_of job_A))] \<and>
   remux_attempts
     (stored_after (processVideo env_success (job_A\<lparr>video_duration := Some (1 / 2)\<rparr>))
        (job_A\<lparr>video_duration := Some (1 / 2)\<rparr>)) = Some 0 \<and>
   remux_status
     (stored_after
        (processVideo (env_success\<lparr>ffprobe := Inr (Num (1 / 2))\<rparr>)
           (job_A\<lparr>video_duration := Some 0\<rparr>))
        (job_A\<lparr>video_duration := Some 0\<rparr>)) = Some ''skipped''"
  using short_videos_are_skipped
      [of "job_A\<lparr>video_duration := Some (1 / 2)\<rparr>" env_success]
    short_videos_are_skipped
      [of "job_A\<lparr>video_duration := Some 0\<rparr>" "env_success\<lparr>ffprobe := Inr (Num (1 / 2))\<rparr>"]
  by (simp add: run_simps)

text \<open>
  A recorded duration of \<open>0\<close> is at most one second, yet the guard of line 140 reads
  it as missing: the job is claimed, probed at 45 seconds and completed.
\<close>

theorem recorded_zero_duration_counterexample:
  "remux_status
     (stored_after (processVideo env_success (job_A\<lparr>video_duration := Some 0\<rparr>))
        (job_A\<lparr>video_duration := Some 0\<rparr>)) = Some ''completed'' \<and>
   remux_attempts
     (stored_after (processVideo env_success (job_A\<lparr>video_duration := Some 0\<rparr>))
        (job_A\<lparr>video_duration := Some 0\<rparr>)) = Some 1 \<and>
   HeadObject ''recordings/x.webm'' \<in>
     set (processVideo env_success (job_A\<lparr>video_duration := Some 0\<rparr>))"
  by (simp add: run_simps)

lemma tryBlock_thrown_quiet:
  "snd (tryBlock e video md n) = Inl msg \<Longrightarrow> db_updates (fst (tryBlock e video md n)) = []"
  by (auto simp: tryBlock_def probeAndContinue_def remuxAndFinish_def step_simps quiet
      fst_checkR2File Let_def markAsFailed_def split: sum.splits option.splits if_splits)

lemma not_found_text: "sublist ''not found'' ''File not found after 3 attempts''"
  unfolding str_includes_sublist [symmetric] by simp

subsection \<open>Every update that processVideo sends\<close>

lemma remuxAndFinish_updates:
  "u \<in> set (db_updates (fst (remuxAndFinish e video md a d))) \<Longrightarrow>
     \<exists>b. u = completedUpdate e md a b (int a - int b) d"
  by (auto simp: remuxAndFinish_def step_simps quiet Let_def split: sum.splits)

lemma probeAndContinue_updates:
  "u \<in> set (db_updates (fst (probeAndContinue e video md a))) \<Longrightarrow>
     (\<exists>d. u = probedSkipUpdate e md d) \<or> (\<exists>b d. u = completedUpdate e md a b (int a - int b) d)"
  by (auto simp: probeAndContinue_def step_simps quiet split: sum.splits if_splits
      dest!: remuxAndFinish_updates)

lemma tryBlock_updates:
  "u \<in> set (db_updates (fst (tryBlock e video md n))) \<Longrightarrow>
     (\<exists>d. u = probedSkipUpdate e md d) \<or>
     (\<exists>a b d. u = completedUpdate e md a b (int a - int b) d) \<or>
     (3 \<le> n \<and> u = failedUpdate e md ''File not found after 3 attempts'')"
  by (auto simp: tryBlock_def step_simps quiet fst_checkR2File markAsFailed_def
      split: sum.splits option.splits if_splits
      dest!: remuxAndFinish_updates probeAndContinue_updates)

lemma catchBlock_updates:
  "u \<in> set (db_updates (catchBlock e video md n msg)) \<Longrightarrow> 3 \<le> n \<and> u = failedUpdate e md msg"
  by (auto simp: catchBlock_def markAsFailed_def split: if_splits)

lemma processVideo_updates_split:
  "db_updates (processVideo e video) =
     (if knownTooShort video then [skippedUpdate e (metadata_of video)]
      else processingUpdate e (metadata_of video) (attemptNumber_of video) #
           db_updates (fst (tryBlock e video (metadata_of video) (attemptNumber_of video))) @
           (case snd (tryBlock e video (metadata_of video) (attemptNumber_of video)) of
              Inr _ \<Rightarrow> []
            | Inl msg \<Rightarrow>
                db_updates (catchBlock e video (metadata_of video) (attemptNumber_of video) msg)))"
  by (simp add: processVideo_alt db_updates_append split: sum.splits)

lemma later_updates:
  assumes "\<not> knownTooShort video"
    and "u \<in> set (tl (db_updates (processVideo e video)))"
  shows "(\<exists>d. u = probedSkipUpdate e (metadata_of video) d) \<or>
     (\<exists>a b d. u = completedUpdate e (metadata_of video) a b (int a - int b) d) \<or>
     (3 \<le> attemptNumber_of video \<and> (\<exists>reason. u = failedUpdate e (metadata_of video) reason))"
  using assms
  by (auto simp: processVideo_updates_split split: sum.splits
      dest!: tryBlock_updates catchBlock_updates)

lemma processVideo_updates:
  assumes "u \<in> set (db_updates (processVideo e video))"
  shows "u = skippedUpdate e (metadata_of video) \<or>
     u = processingUpdate e (metadata_of video) (attemptNumber_of video) \<or>
     (\<exists>d. u = probedSkipUpdate e (metadata_of video) d) \<or>
     (\<exists>a b d. u = completedUpdate e (metadata_of video) a b (int a - int b) d) \<or>
     (3 \<le> attemptNumber_of video \<and> (\<exists>reason. u = failedUpdate e (metadata_of video) reason))"
proof (cases "knownTooShort video")
  case True
  with assms show ?thesis by (simp add: processVideo_updates_split)
next
  case False
  then have "db_updates (processVideo e video) =
      processingUpdate e (metadata_of video) (attemptNumber_of video) #
      tl (db_updates (processVideo e video))"
    by (simp add: processVideo_updates_split)
  with assms have "u = processingUpdate e (metadata_of video) (attemptNumber_of video) \<or>
      u \<in> set (tl (db_updates (processVideo e video)))"
    by (metis set_ConsD)
  with later_updates [OF False] show ?thesis by blast
qed

lemma processVideo_update_ids:
  "DbUpdate i u \<in> set (processVideo e video) \<Longrightarrow> i = row_id video"
  by (auto simp: processVideo_alt tryBlock_def probeAndContinue_def remuxAndFinish_def
      catchBlock_def downloadFromR2_def uploadToR2_def getVideoDuration_def step_simps
      fst_checkR2File Let_def markAsFailed_def split: sum.splits option.splits if_splits)

lemma attempts_monotone_cap:
  "a \<le> 3 \<Longrightarrow>
   \<forall>u \<in> set us. set_remux_attempts u = None \<or> set_remux_attempts u = Some 3 \<Longrightarrow>
   attempts_monotone a us"
  by (induction us arbitrary: a) (auto split: option.splits)

lemma discovered_attempts:
  assumes "resp_data (discoveryQuery (Inr table)) = Some vs" and "v \<in> set vs"
  shows "\<exists>b. remux_attempts v = Some b \<and> b < 3"
proof -
  from assms have "v \<in> set (lt_filter remux_attempts 3
      (eq_filter remux_status ''pending'' (eq_filter (\<lambda>r. Some (status r)) ''completed'' table)))"
    by (auto simp: discoveryQuery_def limit_def order_ascending_def gt_filter_def
        dest!: in_set_takeD)
  then show ?thesis
    by (auto simp: lt_filter_def split: option.splits)
qed

lemma stored_metadata:
  "set_metadata u = md ++ new \<Longrightarrow>
      (\<forall>k v (r::packing_record). md k = Some v \<and> k \<notin> dom new \<longrightarrow>
          metadata_of (apply_update u r) k = Some v) \<and>
      (\<forall>k (r::packing_record). k \<in> dom new \<longrightarrow> metadata_of (apply_update u r) k = new k)"
  by (auto simp: apply_update_def metadata_of_def map_add_def split: option.splits)

lemma extends_snapshot:
  assumes "set_metadata u = md ++ new" and "dom new = S" and "S \<in> K"
  shows "\<exists>new. set_metadata u = md ++ new \<and> dom new \<in> K \<and>
      (\<forall>k v (r::packing_record). md k = Some v \<and> k \<notin> dom new \<longrightarrow>
          metadata_of (apply_update u r) k = Some v) \<and>
      (\<forall>k (r::packing_record). k \<in> dom new \<longrightarrow> metadata_of (apply_update u r) k = new k)"
  using assms stored_metadata [OF assms(1)] by blast

lemma processVideo_updates_cases:
  assumes "u \<in> set (db_updates (processVideo e video))"
  obtains "u = skippedUpdate e (metadata_of video)"
    | "u = processingUpdate e (metadata_of video) (attemptNumber_of video)"
    | d where "u = probedSkipUpdate e (metadata_of video) d"
    | a b d where "u = completedUpdate e (metadata_of video) a b (int a - int b) d"
    | reason where "u = failedUpdate e (metadata_of video) reason"
  using processVideo_updates [OF assms] by blast

text \<open>
  C4, as the code has it. The metadata of every update is the metadata of the row as
  the discovery query returned it, extended by the keys of that update: a key of that
  snapshot which the update does not write keeps its value in the stored row.
\<close>

theorem updates_extend_the_snapshot:
  assumes "u \<in> set (db_updates (processVideo e video))"
  shows "\<exists>new. set_metadata u = metadata_of video ++ new \<and>
           dom new \<in> {{''skipped_at'', ''skip_reason''},
                      {''last_remux_attempt''},
                      {''skipped_at'', ''detected_duration'', ''skip_reason''},
                      {''detected_duration'', ''compression_ratio'', ''size_saved'',
                       ''original_size'', ''remux_processing_time_ms''},
                      {''failed_at'', ''remux_error''}} \<and>
           (\<forall>k v (r::packing_record). metadata_of video k = Some v \<and> k \<notin> dom new \<longrightarrow>
              metadata_of (apply_update u r) k = Some v) \<and>
           (\<forall>k (r::packing_record). k \<in> dom new \<longrightarrow> metadata_of (apply_update u r) k = new k)"
  using assms
proof (cases rule: processVideo_updates_cases)
  case 1
  show ?thesis
  proof (rule extends_snapshot)
    show "set_metadata u = metadata_of video ++
        [''skip_reason'' \<mapsto> JStr ''duration_too_short'',
         ''skipped_at'' \<mapsto> JStr (iso_skipped e)]"
      by (simp add: 1 skippedUpdate_def)
    show "dom [''skip_reason'' \<mapsto> JStr ''duration_too_short'',
         ''skipped_at'' \<mapsto> JStr (iso_skipped e)] = {''skipped_at'', ''skip_reason''}"
      by simp
  qed (intro insertI1 insertI2)
next
  case 2
  show ?thesis
  proof (rule extends_snapshot)
    show "set_metadata u = metadata_of video ++
        [''last_remux_attempt'' \<mapsto> JStr (iso_attempt e)]"
      by (simp add: 2 processingUpdate_def)
    show "dom [''last_remux_attempt'' \<mapsto> JStr (iso_attempt e)] = {''last_remux_attempt''}"
      by simp
  qed (intro insertI1 insertI2)
next
  case (3 d)
  show ?thesis
  proof (rule extends_snapshot)
    show "set_metadata u = metadata_of video ++
        [''skip_reason'' \<mapsto> JStr ''duration_too_short'',
         ''detected_duration'' \<mapsto> JNum d,
         ''skipped_at'' \<mapsto> JStr (iso_skipped e)]"
      by (simp add: 3 probedSkipUpdate_def)
    show "dom [''skip_reason'' \<mapsto> JStr ''duration_too_short'',
         ''detected_duration'' \<mapsto> JNum d,
         ''skipped_at'' \<mapsto> JStr (iso_skipped e)] =
        {''skipped_at'', ''detected_duration'', ''skip_reason''}"
      by simp
  qed (intro insertI1 insertI2)
next
  case (4 a b d)
  show ?thesis
  proof (rule extends_snapshot)
    show "set_metadata u = metadata_of video ++
        [''remux_processing_time_ms'' \<mapsto> JNum (Num (of_int (now_end e - now_start e))),
         ''original_size'' \<mapsto> JNum (Num (of_nat a)),
         ''size_saved'' \<mapsto> JNum (Num (of_int (int a - int b))),
         ''compression_ratio'' \<mapsto> JStr (saved_percent e),
         ''detected_duration'' \<mapsto> JNum d]"
      by (simp add: 4 completedUpdate_def)
    show "dom [''remux_processing_time_ms'' \<mapsto> JNum (Num (of_int (now_end e - now_start e))),
         ''original_size'' \<mapsto> JNum (Num (of_nat a)),
         ''size_saved'' \<mapsto> JNum (Num (of_int (int a - int b))),
         ''compression_ratio'' \<mapsto> JStr (saved_percent e),
         ''detected_duration'' \<mapsto> JNum d] =
        {''detected_duration'', ''compression_ratio'', ''size_saved'',
         ''original_size'', ''remux_processing_time_ms''}"
      by simp
  qed (intro insertI1 insertI2)
next
  case (5 reason)
  show ?thesis
  proof (rule extends_snapshot)
    show "set_metadata u = metadata_of video ++
        [''remux_error'' \<mapsto> JStr reason, ''failed_at'' \<mapsto> JStr (iso_failed e)]"
      by (simp add: 5 failedUpdate_def)
    show "dom [''remux_error'' \<mapsto> JStr reason, ''failed_at'' \<mapsto> JStr (iso_failed e)] =
        {''failed_at'', ''remux_error''}"
      by simp
  qed (intro insertI1 insertI2)
qed

theorem updates_extend_the_snapshot_witness:
  "completedUpdate env_success (metadata_of job_A) 1000 1200 (- 200) (Num 45)
     \<in> set (db_updates (processVideo env_success job_A)) \<and>
   metadata_of
     (apply_update (completedUpdate env_success (metadata_of job_A) 1000 1200 (- 200) (Num 45))
        job_A) ''uploaded_from'' = Some (JStr ''worker_app'')"
  using updates_extend_the_snapshot
    [of "completedUpdate env_success (metadata_of job_A) 1000 1200 (- 200) (Num 45)"
        env_success job_A]
  by (simp add: run_simps)

text \<open>
  The attempt timestamp that the claim step stores is gone after the \<open>completed\<close>
  update of the same run: that update writes the snapshot taken before the claim.
\<close>

theorem attempt_timestamp_lost_counterexample:
  "metadata_of (stored_after (take 1 (processVideo env_success job_A)) job_A)
     ''last_remux_attempt'' = Some (JStr ''2025-01-01T00:00:01Z'') \<and>
   metadata_of (stored_after (processVideo env_success job_A) job_A)
     ''last_remux_attempt'' = None"
  by (simp add: run_simps)

subsection \<open>The discovery query\<close>

lemma selected_eligible:
  "gt_filter video_duration 1
     (lt_filter remux_attempts 3
     (eq_filter remux_status ''pending''
     (eq_filter (\<lambda>r. Some (status r)) ''completed'' table))) = filter eligible table"
  by (auto simp: gt_filter_def lt_filter_def eq_filter_def eligible_def
      intro!: filter_cong split: option.splits)

lemma discoveryQuery_data:
  "discoveryQuery (Inr table) =
     \<lparr> resp_data = Some (take 5 (sort_key created_at (filter eligible table))),
       resp_error = None \<rparr>"
  by (simp add: discoveryQuery_def limit_def order_ascending_def selected_eligible)

lemma take_sorted_oldest:
  assumes "sorted (map f xs)" and "r \<in> set xs" and "r \<notin> set (take n xs)"
    and "v \<in> set (take n xs)"
  shows "f v \<le> f r"
proof -
  from assms(2,3) have "r \<in> set (drop n xs)"
    by (metis Un_iff append_take_drop_id set_append)
  moreover from assms(1) have "sorted (map f (take n xs) @ map f (drop n xs))"
    by (simp flip: map_append)
  ultimately show ?thesis
    using assms(4) by (auto simp: sorted_append)
qed

text \<open>
  C5. The discovery query returns the five oldest eligible rows, oldest first: each
  returned row has upload status completed, remux status pending, fewer than three
  attempts and a recorded duration above one second (so never a missing or zero
  duration), and an eligible row that is not returned is no older than any returned row.
  When no row is eligible the cycle does nothing; when the query fails the cycle
  reports the error on the console and sends no update.
\<close>

theorem discovery_returns_oldest_eligible:
  "discoveryQuery (Inr table) =
     \<lparr> resp_data = Some (take 5 (sort_key created_at (filter eligible table))),
       resp_error = None \<rparr> \<and>
   (\<forall>vs. resp_data (discoveryQuery (Inr table)) = Some vs \<longrightarrow>
      length vs = min 5 (length (filter eligible table)) \<and>
      sorted (map created_at vs) \<and>
      (\<forall>v \<in> set vs. v \<in> set table \<and> eligible v \<and>
         video_duration v \<noteq> None \<and> video_duration v \<noteq> Some 0) \<and>
      (\<forall>r \<in> set table. eligible r \<and> r \<notin> set vs \<longrightarrow>
         (\<forall>v \<in> set vs. created_at v \<le> created_at r))) \<and>
   (filter eligible table = [] \<longrightarrow> processVideos finish envs (Inr table) = ([], [])) \<and>
   processVideos finish envs (Inl msg) = ([ConsoleError (''Database query error: '' @ msg)], []) \<and>
   db_updates (cycle_events (processVideos finish envs (Inl msg))) = []"
proof (intro conjI allI impI)
  show "discoveryQuery (Inr table) =
     \<lparr> resp_data = Some (take 5 (sort_key created_at (filter eligible table))),
       resp_error = None \<rparr>"
    by (rule discoveryQuery_data)
next
  fix vs
  assume "resp_data (discoveryQuery (Inr table)) = Some vs"
  then have vs: "vs = take 5 (sort_key created_at (filter eligible table))"
    by (simp add: discoveryQuery_data)
  show "length vs = min 5 (length (filter eligible table))"
    by (simp add: vs min.commute)
  have srt: "sorted (map created_at (sort_key created_at (filter eligible table)))"
    by simp
  show "sorted (map created_at vs)"
    unfolding vs take_map [symmetric] by (rule sorted_wrt_take) (rule srt)
  show "\<forall>v \<in> set vs. v \<in> set table \<and> eligible v \<and>
         video_duration v \<noteq> None \<and> video_duration v \<noteq> Some 0"
  proof
    fix v assume "v \<in> set vs"
    then have "v \<in> set (sort_key created_at (filter eligible table))"
      unfolding vs by (rule in_set_takeD)
    then have "v \<in> set table \<and> eligible v" by simp
    then show "v \<in> set table \<and> eligible v \<and>
         video_duration v \<noteq> None \<and> video_duration v \<noteq> Some 0"
      by (auto simp: eligible_def split: option.splits)
  qed
  show "\<forall>r \<in> set table. eligible r \<and> r \<notin> set vs \<longrightarrow>
         (\<forall>v \<in> set vs. created_at v \<le> created_at r)"
  proof (intro ballI impI)
    fix r v
    assume "r \<in> set table" and "eligible r \<and> r \<notin> set vs" and "v \<in> set vs"
    then show "created_at v \<le> created_at r"
      using take_sorted_oldest [OF srt, of r 5 v] by (simp add: vs)
  qed
next
  assume "filter eligible table = []"
  then show "processVideos finish envs (Inr table) = ([], [])"
    by (simp add: processVideos_def discoveryQuery_data)
next
  show "processVideos finish envs (Inl msg) = ([ConsoleError (''Database query error: '' @ msg)], [])"
    by (simp add: processVideos_def discoveryQuery_def)
  then show "db_updates (cycle_events (processVideos finish envs (Inl msg))) = []"
    by (simp add: cycle_events_def)
qed

theorem discovery_returns_oldest_eligible_witness:
  "resp_data (discoveryQuery
      (Inr [job_A\<lparr>created_at := 9\<rparr>, job_A\<lparr>video_duration := Some 0\<rparr>,
            job_A\<lparr>remux_attempts := Some 3\<rparr>, job_A\<lparr>remux_status := Some ''processing''\<rparr>,
            job_A])) = Some [job_A, job_A\<lparr>created_at := 9\<rparr>] \<and>
   processVideos (\<lambda>v. 0) (\<lambda>v. env_success) (Inr [job_A\<lparr>video_duration := Some 0\<rparr>]) = ([], [])"
  using discovery_returns_oldest_eligible
      [of "[job_A\<lparr>created_at := 9\<rparr>, job_A\<lparr>video_duration := Some 0\<rparr>,
            job_A\<lparr>remux_attempts := Some 3\<rparr>, job_A\<lparr>remux_status := Some ''processing''\<rparr>,
            job_A]"]
    discovery_returns_oldest_eligible [of "[job_A\<lparr>video_duration := Some 0\<rparr>]" "\<lambda>v. 0" "\<lambda>v. env_success"]
  by (simp add: eligible_def job_A_def)

subsection \<open>The batch dispatcher\<close>

declare batch_loop.simps [simp del]

lemma batch_loop_map: "batch_loop body i videos = map body (batch_loop (\<lambda>batch. batch) i videos)"
proof (induction body i videos rule: batch_loop.induct)
  case (1 body i videos)
  show ?case
  proof (cases "i < length videos")
    case True
    with 1 show ?thesis
      by (subst batch_loop.simps, subst (2) batch_loop.simps) simp
  next
    case False
    then show ?thesis
      by (subst batch_loop.simps, subst (2) batch_loop.simps) simp
  qed
qed

lemma concat_batches: "concat (batch_loop (\<lambda>batch. batch) i (videos::'a list)) = drop i videos"
proof (induction "\<lambda>batch::'a list. batch" i videos rule: batch_loop.induct)
  case (1 i videos)
  show ?case
  proof (cases "i < length videos")
    case True
    have "take batchSize (drop i videos) @ drop (i + batchSize) videos = drop i videos"
      by (metis add.commute append_take_drop_id drop_drop)
    with True 1 show ?thesis
      by (subst batch_loop.simps) (simp add: slice_def)
  next
    case False
    then show ?thesis
      by (subst batch_loop.simps) simp
  qed
qed



lemma launched_append: "launched (xs @ ys) = launched xs @ launched ys"
  by (induction xs rule: launched.induct) simp_all

lemma settled_jobs_append: "settled_jobs (xs @ ys) = settled_jobs xs @ settled_jobs ys"
  by (induction xs rule: settled_jobs.induct) simp_all

lemma in_flight_append: "in_flight (xs @ ys) = in_flight xs + in_flight ys"
  by (induction xs rule: in_flight.induct) simp_all

lemma launched_map: "launched (map Launch xs) = xs" "launched (map Settle xs) = []"
  by (induction xs) simp_all

lemma settled_jobs_map: "settled_jobs (map Launch xs) = []" "settled_jobs (map Settle xs) = xs"
  by (induction xs) simp_all

lemma in_flight_map:
  "in_flight (map Launch xs) = int (length xs)" "in_flight (map Settle xs) = - int (length xs)"
  by (induction xs) simp_all

lemmas trace_simps = launched_append settled_jobs_append in_flight_append launched_map
  settled_jobs_map in_flight_map allSettled_def



lemma in_flight_batches:
  "in_flight (concat (map (\<lambda>b. fst (allSettled finish task b)) bs)) = 0"
  by (induction bs) (simp_all add: trace_simps)



lemma dispatched_batches:
  "map fst (batch_loop (allSettled finish task) i videos) =
     map (\<lambda>b. fst (allSettled finish task b)) (batch_loop (\<lambda>batch. batch) i videos)"
  by (subst batch_loop_map) simp

lemma dispatched_outcomes:
  "concat (map snd (batch_loop (allSettled finish task) 0 videos)) =
     map (\<lambda>v. case task v of Inl msg \<Rightarrow> Rejected msg | Inr x \<Rightarrow> Fulfilled x) videos"
proof -
  have "concat (map snd (batch_loop (allSettled finish task) 0 videos)) =
      map (\<lambda>v. case task v of Inl msg \<Rightarrow> Rejected msg | Inr x \<Rightarrow> Fulfilled x)
        (concat (batch_loop (\<lambda>batch. batch) 0 videos))"
    by (subst batch_loop_map) (simp add: allSettled_def map_concat comp_def)
  then show ?thesis by (simp add: concat_batches)
qed

lemma processVideos_dispatches:
  assumes "resp_data (discoveryQuery (Inr table)) = Some vs"
  shows "processVideos finish envs (Inr table) =
     ([], batch_loop (allSettled finish (\<lambda>video. Inr (processVideo (envs video) video))) 0 vs)"
  using assms
  by (cases "vs = []")
     (simp_all add: processVideos_def discoveryQuery_data batch_loop.simps)



subsection \<open>The failure policy\<close>

lemma remuxAndFinish_throws:
  assumes "executeFFmpeg (ffmpeg e) = Inl reason \<or>
     (executeFFmpeg (ffmpeg e) = Inr () \<and>
        (stat_output e = Inl reason \<or>
         ((\<exists>b. stat_output e = Inr b) \<and> snd (uploadToR2 e (video_url video)) = Inl reason)))"
  shows "snd (remuxAndFinish e video md a actual) = Inl reason"
  using assms by (auto simp: remuxAndFinish_def step_simps Let_def)

lemma tryBlock_throws:
  assumes found: "snd (checkR2File e (video_url video)) = Inr True"
    and step:
      "snd (downloadFromR2 e (video_url video)) = Inl reason \<or>
       (snd (downloadFromR2 e (video_url video)) = Inr () \<and>
          (stat_input e = Inl reason \<or>
           ((\<exists>a. stat_input e = Inr a) \<and>
            ((\<exists>d. video_duration video = Some d \<and> d \<noteq> 0) \<or>
             ((video_duration video = None \<or> video_duration video = Some 0) \<and>
              (\<exists>actual. snd (getVideoDuration e) = Inr actual \<and> \<not> le_one actual))) \<and>
            (executeFFmpeg (ffmpeg e) = Inl reason \<or>
             (executeFFmpeg (ffmpeg e) = Inr () \<and>
                (stat_output e = Inl reason \<or>
                 ((\<exists>b. stat_output e = Inr b) \<and>
                  snd (uploadToR2 e (video_url video)) = Inl reason)))))))"
  shows "snd (tryBlock e video md n) = Inl reason"
proof -
  from step consider
      (download) "snd (downloadFromR2 e (video_url video)) = Inl reason"
    | (stat) "snd (downloadFromR2 e (video_url video)) = Inr ()" "stat_input e = Inl reason"
    | (remux) a where "snd (downloadFromR2 e (video_url video)) = Inr ()" "stat_input e = Inr a"
        "(\<exists>d. video_duration video = Some d \<and> d \<noteq> 0) \<or>
         ((video_duration video = None \<or> video_duration video = Some 0) \<and>
          (\<exists>actual. snd (getVideoDuration e) = Inr actual \<and> \<not> le_one actual))"
        "executeFFmpeg (ffmpeg e) = Inl reason \<or>
         (executeFFmpeg (ffmpeg e) = Inr () \<and>
            (stat_output e = Inl reason \<or>
             ((\<exists>b. stat_output e = Inr b) \<and> snd (uploadToR2 e (video_url video)) = Inl reason)))"
    by blast
  then show ?thesis
  proof cases
    case download
    with found show ?thesis by (simp add: tryBlock_def step_simps)
  next
    case stat
    with found show ?thesis by (simp add: tryBlock_def step_simps)
  next
    case remux
    note thrown = remuxAndFinish_throws [OF remux(4), of md a]
    from remux(3) show ?thesis
    proof
      assume "\<exists>d. video_duration video = Some d \<and> d \<noteq> 0"
      with found remux(1,2) thrown show ?thesis
        by (auto simp: tryBlock_def step_simps)
    next
      assume "(video_duration video = None \<or> video_duration video = Some 0) \<and>
          (\<exists>actual. snd (getVideoDuration e) = Inr actual \<and> \<not> le_one actual)"
      then obtain actual where dur: "video_duration video = None \<or> video_duration video = Some 0"
        and probe: "snd (getVideoDuration e) = Inr actual" "\<not> le_one actual"
        by blast
      from probe thrown have "snd (probeAndContinue e video md a) = Inl reason"
        by (simp add: probeAndContinue_def step_simps)
      with found remux(1,2) dur show ?thesis
        by (auto simp: tryBlock_def step_simps)
    qed
  qed
qed

text \<open>
  C2. A claimed job whose object is absent, or whose download, \<open>fs.stat\<close>, remux or
  upload throws (the steps before it having succeeded), is written \<open>failed\<close> with
  \<open>remux_attempts = 3\<close> and the error text as \<open>remux_error\<close> when the attempt
  number is at least three; before the third attempt the claim is the only update and
  the row stays at \<open>processing\<close>. The probe cannot throw. The \<open>catch\<close> block does
  the same for every message, whichever statement of the \<open>try\<close> block threw it.
\<close>

theorem failure_policy:
  assumes claimed: "\<not> knownTooShort video"
    and failure:
      "(snd (checkR2File e (video_url video)) = Inr False \<and>
          reason = ''File not found after 3 attempts'') \<or>
       (snd (checkR2File e (video_url video)) = Inr True \<and>
        (snd (downloadFromR2 e (video_url video)) = Inl reason \<or>
         (snd (downloadFromR2 e (video_url video)) = Inr () \<and>
          (stat_input e = Inl reason \<or>
           ((\<exists>a. stat_input e = Inr a) \<and>
            ((\<exists>d. video_duration video = Some d \<and> d \<noteq> 0) \<or>
             ((video_duration video = None \<or> video_duration video = Some 0) \<and>
              (\<exists>actual. snd (getVideoDuration e) = Inr actual \<and> \<not> le_one actual))) \<and>
            (executeFFmpeg (ffmpeg e) = Inl reason \<or>
             (executeFFmpeg (ffmpeg e) = Inr () \<and>
                (stat_output e = Inl reason \<or>
                 ((\<exists>b. stat_output e = Inr b) \<and>
                  snd (uploadToR2 e (video_url video)) = Inl reason)))))))))"
    and row: "row_id (r::packing_record) = row_id video"
  shows "db_updates (processVideo e video) =
           processingUpdate e (metadata_of video) (attemptNumber_of video) #
           (if 3 \<le> attemptNumber_of video
            then [failedUpdate e (metadata_of video) reason] else []) \<and>
         (3 \<le> attemptNumber_of video \<longrightarrow>
            remux_status (stored_after (processVideo e video) r) = Some ''failed'' \<and>
            remux_attempts (stored_after (processVideo e video) r) = Some 3 \<and>
            metadata (stored_after (processVideo e video) r) =
              Some ((metadata_of video)(''remux_error'' \<mapsto> JStr reason,
                                        ''failed_at'' \<mapsto> JStr (iso_failed e)))) \<and>
         (attemptNumber_of video < 3 \<longrightarrow>
            remux_status (stored_after (processVideo e video) r) = Some ''processing'' \<and>
            remux_attempts (stored_after (processVideo e video) r) =
              Some (attemptNumber_of video)) \<and>
         sublist ''not found'' ''File not found after 3 attempts'' \<and>
         (\<forall>msg. db_updates (catchBlock e video (metadata_of video) (attemptNumber_of video) msg) =
            (if 3 \<le> attemptNumber_of video
             then [failedUpdate e (metadata_of video) msg] else []))"
proof -
  let ?md = "metadata_of video" and ?n = "attemptNumber_of video"
  let ?claim = "DbUpdate (row_id video) (processingUpdate e ?md ?n)"
  let ?fail = "if 3 \<le> ?n then [DbUpdate (row_id video) (failedUpdate e ?md reason)] else []"
  have outcome:
    "(snd (checkR2File e (video_url video)) = Inr False \<and>
        reason = ''File not found after 3 attempts'') \<or>
     snd (tryBlock e video ?md ?n) = Inl reason"
    using failure tryBlock_throws [of e video reason ?md ?n] by blast
  have shape: "\<exists>pre post. processVideo e video = ?claim # pre @ ?fail @ post \<and>
      db_updates pre = [] \<and> db_updates post = []"
    using outcome
  proof
    assume a: "snd (checkR2File e (video_url video)) = Inr False \<and>
          reason = ''File not found after 3 attempts''"
    then have "processVideo e video = ?claim # [HeadObject (video_url video)] @ ?fail @ [Cleanup]"
      using claimed tryBlock_absent [of e video ?md ?n]
      by (simp add: processVideo_alt markAsFailed_def)
    then show ?thesis
      by (intro exI [of _ "[HeadObject (video_url video)]"] exI [of _ "[Cleanup]"]) simp
  next
    assume t: "snd (tryBlock e video ?md ?n) = Inl reason"
    then have "processVideo e video =
       ?claim # (fst (tryBlock e video ?md ?n) @
          [ConsoleError (''Failed: '' @ reason), StatsIncr Failed]) @ ?fail @ [Cleanup]"
      using claimed by (simp add: processVideo_alt catchBlock_def markAsFailed_def)
    moreover have "db_updates (fst (tryBlock e video ?md ?n) @
          [ConsoleError (''Failed: '' @ reason), StatsIncr Failed]) = []"
      using tryBlock_thrown_quiet [OF t] by (simp add: db_updates_append)
    ultimately show ?thesis
      by (intro exI [of _ "fst (tryBlock e video ?md ?n) @
          [ConsoleError (''Failed: '' @ reason), StatsIncr Failed]"] exI [of _ "[Cleanup]"]) simp
  qed
  then obtain pre post where tr: "processVideo e video = ?claim # pre @ ?fail @ post"
    and pre: "db_updates pre = []" and post: "db_updates post = []"
    by blast
  have ups: "db_updates (processVideo e video) =
      processingUpdate e ?md ?n # (if 3 \<le> ?n then [failedUpdate e ?md reason] else [])"
    unfolding tr using pre post by (simp add: db_updates_append)
  have st: "stored_after (processVideo e video) r =
      (if 3 \<le> ?n
       then apply_update (failedUpdate e ?md reason) (apply_update (processingUpdate e ?md ?n) r)
       else apply_update (processingUpdate e ?md ?n) r)"
    unfolding tr using row
    by (simp add: stored_after_Cons stored_after_append stored_after_Nil
        stored_after_quiet [OF pre] stored_after_quiet [OF post] apply_update_def)
  have handler: "\<forall>msg. db_updates (catchBlock e video ?md ?n msg) =
      (if 3 \<le> ?n then [failedUpdate e ?md msg] else [])"
    by (simp add: catchBlock_def markAsFailed_def)
  show ?thesis
    using ups handler not_found_text unfolding st
    by (simp add: apply_update_def failedUpdate_def processingUpdate_def)
qed

theorem failure_policy_witness:
  "db_updates (processVideo (env_success\<lparr>head_object := Inl ''NotFound''\<rparr>)
        (job_A\<lparr>remux_attempts := Some 2\<rparr>)) =
     [processingUpdate (env_success\<lparr>head_object := Inl ''NotFound''\<rparr>) (metadata_of job_A) 3,
      failedUpdate (env_success\<lparr>head_object := Inl ''NotFound''\<rparr>) (metadata_of job_A)
        ''File not found after 3 attempts''] \<and>
   map set_remux_status
     (db_updates (processVideo
        (env_success\<lparr>get_object := Some ''reset'', signed_url := Some ''no credentials''\<rparr>)
        (job_A\<lparr>remux_attempts := Some 2\<rparr>))) = [''processing'', ''failed''] \<and>
   map set_remux_status
     (db_updates (processVideo (env_success\<lparr>stat_input := Inl ''ENOENT''\<rparr>)
        (job_A\<lparr>remux_attempts := Some 2\<rparr>))) = [''processing'', ''failed''] \<and>
   remux_status
     (stored_after (processVideo (env_success\<lparr>ffmpeg := ffmpeg_broken\<rparr>)
        (job_A\<lparr>remux_attempts := Some 2\<rparr>)) (job_A\<lparr>remux_attempts := Some 2\<rparr>)) =
     Some ''failed'' \<and>
   map set_remux_status
     (db_updates (processVideo (env_success\<lparr>stat_output := Inl ''ENOENT''\<rparr>)
        (job_A\<lparr>remux_attempts := Some 2\<rparr>))) = [''processing'', ''failed''] \<and>
   metadata_of
     (stored_after (processVideo (env_success\<lparr>put_object := Some ''AccessDenied''\<rparr>)
        (job_A\<lparr>remux_attempts := Some 2\<rparr>)) (job_A\<lparr>remux_attempts := Some 2\<rparr>))
     ''remux_error'' = Some (JStr ''AccessDenied'') \<and>
   remux_status
     (stored_after (processVideo (env_success\<lparr>put_object := Some ''AccessDenied''\<rparr>) job_A)
        job_A) = Some ''processing''"
  using failure_policy
      [of "job_A\<lparr>remux_attempts := Some 2\<rparr>" "env_success\<lparr>head_object := Inl ''NotFound''\<rparr>"
          "''File not found after 3 attempts''" "job_A\<lparr>remux_attempts := Some 2\<rparr>"]
    failure_policy
      [of "job_A\<lparr>remux_attempts := Some 2\<rparr>"
          "env_success\<lparr>get_object := Some ''reset'', signed_url := Some ''no credentials''\<rparr>"
          "''no credentials''" "job_A\<lparr>remux_attempts := Some 2\<rparr>"]
    failure_policy
      [of "job_A\<lparr>remux_attempts := Some 2\<rparr>" "env_success\<lparr>stat_input := Inl ''ENOENT''\<rparr>"
          "''ENOENT''" "job_A\<lparr>remux_attempts := Some 2\<rparr>"]
    failure_policy
      [of "job_A\<lparr>remux_attempts := Some 2\<rparr>" "env_success\<lparr>ffmpeg := ffmpeg_broken\<rparr>"
          "''FFmpeg failed: Invalid data''" "job_A\<lparr>remux_attempts := Some 2\<rparr>"]
    failure_policy
      [of "job_A\<lparr>remux_attempts := Some 2\<rparr>" "env_success\<lparr>stat_output := Inl ''ENOENT''\<rparr>"
          "''ENOENT''" "job_A\<lparr>remux_attempts := Some 2\<rparr>"]
    failure_policy
      [of "job_A\<lparr>remux_attempts := Some 2\<rparr>" "env_success\<lparr>put_object := Some ''AccessDenied''\<rparr>"
          "''AccessDenied''" "job_A\<lparr>remux_attempts := Some 2\<rparr>"]
    failure_policy
      [of job_A "env_success\<lparr>put_object := Some ''AccessDenied''\<rparr>" "''AccessDenied''" job_A]
  by (simp add: run_simps ffmpeg_broken_def str_or_def)

subsection \<open>The attempt counter\<close>

lemma tryBlock_returned_updates:
  assumes "snd (tryBlock e video md n) = Inr ()" and "3 \<le> n"
  shows "length (db_updates (fst (tryBlock e video md n))) = 1"
  using assms
  by (auto simp: tryBlock_def probeAndContinue_def remuxAndFinish_def step_simps quiet
      fst_checkR2File Let_def markAsFailed_def split: sum.splits option.splits if_splits)

lemma capped_attempt_ends:
  assumes "\<not> knownTooShort video" and "3 \<le> attemptNumber_of video"
  shows "\<exists>u. db_updates (processVideo e video) =
           [processingUpdate e (metadata_of video) (attemptNumber_of video), u] \<and>
         (set_remux_status u = ''completed'' \<or> set_remux_status u = ''skipped'' \<or>
          set_remux_status u = ''failed'')"
proof -
  let ?md = "metadata_of video" and ?n = "attemptNumber_of video"
  let ?rest = "tl (db_updates (processVideo e video))"
  have hd: "db_updates (processVideo e video) = processingUpdate e ?md ?n # ?rest"
    using assms(1) by (simp add: processVideo_updates_split)
  have "length ?rest = 1"
  proof (cases "snd (tryBlock e video ?md ?n)")
    case (Inl msg)
    with assms tryBlock_thrown_quiet [of e video ?md ?n msg] show ?thesis
      by (simp add: processVideo_updates_split catchBlock_def markAsFailed_def)
  next
    case (Inr x)
    with assms tryBlock_returned_updates [of e video ?md ?n] show ?thesis
      by (simp add: processVideo_updates_split)
  qed
  then obtain u where rest: "?rest = [u]"
    by (cases ?rest) simp_all
  then have "u \<in> set ?rest" by simp
  from later_updates [OF assms(1) this]
  have "set_remux_status u = ''completed'' \<or> set_remux_status u = ''skipped'' \<or>
      set_remux_status u = ''failed''"
    by (auto simp: probedSkipUpdate_def completedUpdate_def failedUpdate_def)
  with hd rest show ?thesis by simp
qed

lemma discovered_is_eligible:
  assumes "resp_data (discoveryQuery (Inr table)) = Some vs" and "v \<in> set vs"
  shows "eligible v"
proof -
  from assms have "v \<in> set (sort_key created_at (filter eligible table))"
    by (auto simp: discoveryQuery_data dest: in_set_takeD)
  then show ?thesis by simp
qed

lemma discovered_is_processed:
  assumes "resp_data (discoveryQuery (Inr table)) = Some vs" and "v \<in> set vs"
  shows "Fulfilled (processVideo (envs v) v) \<in>
     set (concat (map snd (snd (processVideos finish envs (Inr table)))))"
  using assms(2)
  by (simp add: processVideos_dispatches [OF assms(1)] dispatched_outcomes)

text \<open>
  C3, as the code has it. Every job that the discovery query returns is processed, has
  fewer than three recorded attempts, and its attempt counter never goes down across the
  updates of its run; the same holds for any job with fewer than three recorded
  attempts. A job that is not skipped at once is claimed first, before any other
  request, with \<open>processing\<close>, the counter plus one and the attempt timestamp; a
  \<open>failed\<close> update sets the counter to 3; the \<open>skipped\<close> and \<open>completed\<close>
  updates leave it alone. A row whose counter has reached 3 is not returned by the
  discovery query again, and the attempt whose claim wrote 3 (or more) sends exactly one
  more update, which is \<open>completed\<close>, \<open>skipped\<close> or \<open>failed\<close>.
\<close>

theorem attempts_never_decrease:
  "(\<forall>table vs job. resp_data (discoveryQuery (Inr table)) = Some vs \<and> job \<in> set vs \<longrightarrow>
      Fulfilled (processVideo (envs job) job) \<in>
        set (concat (map snd (snd (processVideos finish envs (Inr table))))) \<and>
      (\<exists>a. remux_attempts job = Some a \<and> a < 3 \<and>
         attempts_monotone a (db_updates (processVideo (envs job) job)) \<and>
         (\<exists>rest. processVideo (envs job) job =
            DbUpdate (row_id job)
              (processingUpdate (envs job) (metadata_of job) (a + 1)) # rest))) \<and>
   (\<forall>a. remux_attempts video = Some a \<and> a < 3 \<longrightarrow>
      attempts_monotone a (db_updates (processVideo e video))) \<and>
   (\<not> knownTooShort video \<longrightarrow>
      (\<exists>rest. processVideo e video =
         DbUpdate (row_id video)
           (processingUpdate e (metadata_of video) (attemptNumber_of video)) # rest)) \<and>
   set_remux_status (processingUpdate e (metadata_of video) (attemptNumber_of video)) =
     ''processing'' \<and>
   set_remux_attempts (processingUpdate e (metadata_of video) (attemptNumber_of video)) =
     Some (attemptNumber_of video) \<and>
   set_metadata (processingUpdate e (metadata_of video) (attemptNumber_of video))
     ''last_remux_attempt'' = Some (JStr (iso_attempt e)) \<and>
   (\<forall>u \<in> set (db_updates (processVideo e video)).
      (set_remux_status u = ''failed'' \<longrightarrow> set_remux_attempts u = Some 3) \<and>
      (set_remux_status u = ''skipped'' \<or> set_remux_status u = ''completed'' \<longrightarrow>
         set_remux_attempts u = None)) \<and>
   (\<not> knownTooShort video \<and> 3 \<le> attemptNumber_of video \<longrightarrow>
      (\<exists>u. db_updates (processVideo e video) =
           [processingUpdate e (metadata_of video) (attemptNumber_of video), u] \<and>
         (set_remux_status u = ''completed'' \<or> set_remux_status u = ''skipped'' \<or>
          set_remux_status u = ''failed'')))"
proof -
  have mono: "attempts_monotone a (db_updates (processVideo e' v))"
    if a: "remux_attempts v = Some a" "a < 3" for a e' v
  proof (cases "knownTooShort v")
    case True
    then show ?thesis
      by (simp add: processVideo_updates_split skippedUpdate_def)
  next
    case False
    from a have n: "attemptNumber_of v = a + 1"
      by (simp add: attemptNumber_of_def)
    from False have hd: "db_updates (processVideo e' v) =
        processingUpdate e' (metadata_of v) (a + 1) # tl (db_updates (processVideo e' v))"
      by (simp add: processVideo_updates_split n)
    have "\<forall>u \<in> set (tl (db_updates (processVideo e' v))).
        set_remux_attempts u = None \<or> set_remux_attempts u = Some 3"
    proof
      fix u
      assume "u \<in> set (tl (db_updates (processVideo e' v)))"
      from later_updates [OF False this]
      show "set_remux_attempts u = None \<or> set_remux_attempts u = Some 3"
        by (auto simp: probedSkipUpdate_def completedUpdate_def failedUpdate_def)
    qed
    with a have "attempts_monotone (a + 1) (tl (db_updates (processVideo e' v)))"
      by (intro attempts_monotone_cap) auto
    then have "attempts_monotone a
        (processingUpdate e' (metadata_of v) (a + 1) # tl (db_updates (processVideo e' v)))"
      by (simp add: processingUpdate_def)
    with hd show ?thesis by simp
  qed
  have first: "\<exists>rest. processVideo e' v =
      DbUpdate (row_id v) (processingUpdate e' (metadata_of v) (attemptNumber_of v)) # rest"
    if "\<not> knownTooShort v" for e' v
    using that by (simp add: processVideo_alt)
  have discovered: "Fulfilled (processVideo (envs job) job) \<in>
        set (concat (map snd (snd (processVideos finish envs (Inr table))))) \<and>
      (\<exists>a. remux_attempts job = Some a \<and> a < 3 \<and>
         attempts_monotone a (db_updates (processVideo (envs job) job)) \<and>
         (\<exists>rest. processVideo (envs job) job =
            DbUpdate (row_id job)
              (processingUpdate (envs job) (metadata_of job) (a + 1)) # rest))"
    if d: "resp_data (discoveryQuery (Inr table)) = Some vs" "job \<in> set vs" for table vs job
  proof -
    from discovered_attempts [OF d] obtain a where a: "remux_attempts job = Some a" "a < 3"
      by blast
    then have n: "attemptNumber_of job = a + 1"
      by (simp add: attemptNumber_of_def)
    from discovered_is_eligible [OF d] have "\<not> knownTooShort job"
      by (auto simp: eligible_def knownTooShort_def split: option.splits)
    from first [OF this, of "envs job"] a mono [OF a, of "envs job"]
      discovered_is_processed [OF d, of envs finish]
    show ?thesis by (simp add: n)
  qed
  have kinds: "\<forall>u \<in> set (db_updates (processVideo e video)).
      (set_remux_status u = ''failed'' \<longrightarrow> set_remux_attempts u = Some 3) \<and>
      (set_remux_status u = ''skipped'' \<or> set_remux_status u = ''completed'' \<longrightarrow>
         set_remux_attempts u = None)"
  proof
    fix u
    assume "u \<in> set (db_updates (processVideo e video))"
    from processVideo_updates [OF this]
    show "(set_remux_status u = ''failed'' \<longrightarrow> set_remux_attempts u = Some 3) \<and>
      (set_remux_status u = ''skipped'' \<or> set_remux_status u = ''completed'' \<longrightarrow>
         set_remux_attempts u = None)"
      by (auto simp: skippedUpdate_def processingUpdate_def probedSkipUpdate_def
          completedUpdate_def failedUpdate_def)
  qed
  have c1: "\<forall>table vs job. resp_data (discoveryQuery (Inr table)) = Some vs \<and> job \<in> set vs \<longrightarrow>
      Fulfilled (processVideo (envs job) job) \<in>
        set (concat (map snd (snd (processVideos finish envs (Inr table))))) \<and>
      (\<exists>a. remux_attempts job = Some a \<and> a < 3 \<and>
         attempts_monotone a (db_updates (processVideo (envs job) job)) \<and>
         (\<exists>rest. processVideo (envs job) job =
            DbUpdate (row_id job)
              (processingUpdate (envs job) (metadata_of job) (a + 1)) # rest))"
    by (intro allI impI, elim conjE, rule discovered)
  have c2: "\<forall>a. remux_attempts video = Some a \<and> a < 3 \<longrightarrow>
      attempts_monotone a (db_updates (processVideo e video))"
    by (intro allI impI, elim conjE, rule mono)
  have c3: "\<not> knownTooShort video \<longrightarrow>
      (\<exists>rest. processVideo e video =
         DbUpdate (row_id video)
           (processingUpdate e (metadata_of video) (attemptNumber_of video)) # rest)"
    by (intro impI, rule first)
  have c4: "set_remux_status (processingUpdate e (metadata_of video) (attemptNumber_of video)) =
       ''processing''"
    by (simp add: processingUpdate_def)
  have c5: "set_remux_attempts (processingUpdate e (metadata_of video) (attemptNumber_of video)) =
       Some (attemptNumber_of video)"
    by (simp add: processingUpdate_def)
  have c6: "set_metadata (processingUpdate e (metadata_of video) (attemptNumber_of video))
       ''last_remux_attempt'' = Some (JStr (iso_attempt e))"
    by (simp add: processingUpdate_def)
  have c8: "\<not> knownTooShort video \<and> 3 \<le> attemptNumber_of video \<longrightarrow>
      (\<exists>u. db_updates (processVideo e video) =
           [processingUpdate e (metadata_of video) (attemptNumber_of video), u] \<and>
         (set_remux_status u = ''completed'' \<or> set_remux_status u = ''skipped'' \<or>
          set_remux_status u = ''failed''))"
    by (intro impI, elim conjE, rule capped_attempt_ends)
  show ?thesis
    by (intro conjI) (rule c1 c2 c3 c4 c5 c6 kinds c8)+
qed

theorem attempts_never_decrease_witness:
  "resp_data (discoveryQuery (Inr [job_A\<lparr>remux_attempts := Some 2\<rparr>])) =
     Some [job_A\<lparr>remux_attempts := Some 2\<rparr>] \<and>
   attempts_monotone 2
     (db_updates (processVideo (env_success\<lparr>ffmpeg := ffmpeg_broken\<rparr>)
        (job_A\<lparr>remux_attempts := Some 2\<rparr>))) \<and>
   map set_remux_attempts
     (db_updates (processVideo (env_success\<lparr>ffmpeg := ffmpeg_broken\<rparr>)
        (job_A\<lparr>remux_attempts := Some 2\<rparr>))) = [Some 3, Some 3] \<and>
   map set_remux_status
     (db_updates (processVideo (env_success\<lparr>ffmpeg := ffmpeg_broken\<rparr>)
        (job_A\<lparr>remux_attempts := Some 2\<rparr>))) = [''processing'', ''failed''] \<and>
   map set_remux_status
     (db_updates (processVideo env_success (job_A\<lparr>remux_attempts := Some 2\<rparr>))) =
     [''processing'', ''completed'']"
proof -
  have m: "attempts_monotone 2
     (db_updates (processVideo (env_success\<lparr>ffmpeg := ffmpeg_broken\<rparr>)
        (job_A\<lparr>remux_attempts := Some 2\<rparr>)))"
    by (rule attempts_never_decrease [THEN conjunct2, THEN conjunct1, rule_format])
       (simp add: job_A_def)
  have d: "resp_data (discoveryQuery (Inr [job_A\<lparr>remux_attempts := Some 2\<rparr>])) =
     Some [job_A\<lparr>remux_attempts := Some 2\<rparr>]"
    by (simp add: discoveryQuery_data eligible_def job_A_def)
  from m d show ?thesis
    by (simp add: run_simps ffmpeg_broken_def str_or_def)
qed

text \<open>
  The third attempt of a job can succeed: the claim step brings the counter to 3, and
  the next transition of the row is to \<open>completed\<close>.
\<close>

theorem third_attempt_completes_counterexample:
  "remux_attempts
     (stored_after (take 1 (processVideo env_success (job_A\<lparr>remux_attempts := Some 2\<rparr>)))
        (job_A\<lparr>remux_attempts := Some 2\<rparr>)) = Some 3 \<and>
   remux_status
     (stored_after (processVideo env_success (job_A\<lparr>remux_attempts := Some 2\<rparr>))
        (job_A\<lparr>remux_attempts := Some 2\<rparr>)) = Some ''completed'' \<and>
   remux_attempts
     (stored_after (processVideo env_success (job_A\<lparr>remux_attempts := Some 2\<rparr>))
        (job_A\<lparr>remux_attempts := Some 2\<rparr>)) = Some 3"
  by (simp add: run_simps)

subsection \<open>The object store gateway\<close>

text \<open>
  C10, as the code has it. \<open>checkR2File\<close> answers \<open>true\<close> exactly when the HEAD
  request succeeds with a content length above zero. An object of zero bytes is
  therefore treated as absent: the job is claimed, nothing is downloaded or remuxed,
  and the job is written \<open>failed\<close> when this was the third attempt. On an earlier
  attempt the row is left at \<open>processing\<close>, and no discovery query returns the row
  as it then stands.
\<close>

theorem checkR2File_zero_length_is_absent:
  "checkR2File e key = ([HeadObject key], Inr (\<exists>n. head_object e = Inr (Some n) \<and> 0 < n)) \<and>
   (head_object e = Inr (Some 0) \<and> \<not> knownTooShort video \<and> row_id r = row_id video \<longrightarrow>
      processVideo e video =
        DbUpdate (row_id video)
          (processingUpdate e (metadata_of video) (attemptNumber_of video)) #
        HeadObject (video_url video) #
        (if 3 \<le> attemptNumber_of video
         then [markAsFailed e (row_id video) (metadata_of video) ''File not found after 3 attempts'']
         else []) @
        [Cleanup] \<and>
      remux_status (stored_after (processVideo e video) r) =
        Some (if 3 \<le> attemptNumber_of video then ''failed'' else ''processing'') \<and>
      (attemptNumber_of video < 3 \<longrightarrow>
         (\<forall>table vs. resp_data (discoveryQuery (Inr table)) = Some vs \<longrightarrow>
            stored_after (processVideo e video) r \<notin> set vs)))"
proof (intro conjI impI allI)
  show "checkR2File e key = ([HeadObject key], Inr (\<exists>n. head_object e = Inr (Some n) \<and> 0 < n))"
    by (simp add: prod_eq_iff fst_checkR2File snd_checkR2File)
next
  assume h: "head_object e = Inr (Some 0) \<and> \<not> knownTooShort video \<and> row_id r = row_id video"
  then have "snd (checkR2File e (video_url video)) = Inr False"
    by (simp add: snd_checkR2File)
  from tryBlock_absent [OF this] h
  show tr: "processVideo e video =
        DbUpdate (row_id video)
          (processingUpdate e (metadata_of video) (attemptNumber_of video)) #
        HeadObject (video_url video) #
        (if 3 \<le> attemptNumber_of video
         then [markAsFailed e (row_id video) (metadata_of video) ''File not found after 3 attempts'']
         else []) @
        [Cleanup]"
    by (simp add: processVideo_alt)
  from h show st: "remux_status (stored_after (processVideo e video) r) =
        Some (if 3 \<le> attemptNumber_of video then ''failed'' else ''processing'')"
    unfolding tr
    by (simp add: store_simps markAsFailed_def failedUpdate_def processingUpdate_def)
  fix table vs
  assume early: "attemptNumber_of video < 3"
    and d: "resp_data (discoveryQuery (Inr table)) = Some vs"
  show "stored_after (processVideo e video) r \<notin> set vs"
  proof
    assume "stored_after (processVideo e video) r \<in> set vs"
    from discovered_is_eligible [OF d this]
    have "remux_status (stored_after (processVideo e video) r) = Some ''pending''"
      by (simp add: eligible_def)
    with st early show False by simp
  qed
qed

theorem checkR2File_zero_length_is_absent_witness:
  "checkR2File env_empty_object ''recordings/x.webm'' =
     ([HeadObject ''recordings/x.webm''], Inr False) \<and>
   remux_status
     (stored_after (processVideo env_empty_object (job_A\<lparr>remux_attempts := Some 2\<rparr>))
        (job_A\<lparr>remux_attempts := Some 2\<rparr>)) = Some ''failed'' \<and>
   remux_status (stored_after (processVideo env_empty_object job_A) job_A) =
     Some ''processing''"
proof -
  have h2: "head_object env_empty_object = Inr (Some 0) \<and>
      \<not> knownTooShort (job_A\<lparr>remux_attempts := Some 2\<rparr>) \<and>
      row_id (job_A\<lparr>remux_attempts := Some 2\<rparr>) = row_id (job_A\<lparr>remux_attempts := Some 2\<rparr>)"
    by (simp add: env_empty_object_def env_success_def job_A_def knownTooShort_def)
  have h0: "head_object env_empty_object = Inr (Some 0) \<and> \<not> knownTooShort job_A \<and>
      row_id job_A = row_id job_A"
    by (simp add: env_empty_object_def env_success_def job_A_def knownTooShort_def)
  note third = checkR2File_zero_length_is_absent
     [of env_empty_object "''recordings/x.webm''" "job_A\<lparr>remux_attempts := Some 2\<rparr>"
         "job_A\<lparr>remux_attempts := Some 2\<rparr>"]
  note early = checkR2File_zero_length_is_absent
     [of env_empty_object "''recordings/x.webm''" job_A job_A]
  from third [THEN conjunct1] third [THEN conjunct2, THEN mp, OF h2, THEN conjunct2, THEN conjunct1]
    early [THEN conjunct2, THEN mp, OF h0, THEN conjunct2, THEN conjunct1]
  show ?thesis
    by (simp add: env_empty_object_def env_success_def job_A_def attemptNumber_of_def)
qed

text \<open>
  A zero-byte upload is not marked \<open>failed\<close> by the processor alone: the first cycle
  claims the job and leaves it at \<open>processing\<close> with one attempt, the next cycle finds
  nothing to do, and the table stays as it is.
\<close>

theorem zero_length_stays_processing_counterexample:
  "map remux_status (run_cycle (\<lambda>v. 0) (\<lambda>v. env_empty_object) [job_A]) =
     [Some ''processing''] \<and>
   map remux_attempts (run_cycle (\<lambda>v. 0) (\<lambda>v. env_empty_object) [job_A]) = [Some 1] \<and>
   processVideos (\<lambda>v. 0) (\<lambda>v. env_empty_object)
     (Inr (run_cycle (\<lambda>v. 0) (\<lambda>v. env_empty_object) [job_A])) = ([], []) \<and>
   run_cycle (\<lambda>v. 0) (\<lambda>v. env_empty_object)
     (run_cycle (\<lambda>v. 0) (\<lambda>v. env_empty_object) [job_A]) =
     run_cycle (\<lambda>v. 0) (\<lambda>v. env_empty_object) [job_A]"
proof -
  have first: "run_cycle (\<lambda>v. 0) (\<lambda>v. env_empty_object) [job_A] =
      [apply_update (processingUpdate env_empty_object (metadata_of job_A) 1) job_A]"
    by (simp add: run_cycle_def cycle_events_def processVideos_def discoveryQuery_data
        eligible_def batch_loop.simps slice_def batchSize_def allSettled_def
        run_simps env_empty_object_def)
  have idle: "processVideos (\<lambda>v. 0) (\<lambda>v. env_empty_object)
      (Inr [apply_update (processingUpdate env_empty_object (metadata_of job_A) 1) job_A]) =
      ([], [])"
    by (simp add: processVideos_def discoveryQuery_data eligible_def apply_update_def
        processingUpdate_def)
  have again: "run_cycle (\<lambda>v. 0) (\<lambda>v. env_empty_object)
      [apply_update (processingUpdate env_empty_object (metadata_of job_A) 1) job_A] =
      [apply_update (processingUpdate env_empty_object (metadata_of job_A) 1) job_A]"
    by (simp add: run_cycle_def idle cycle_events_def stored_after_Nil)
  show ?thesis
    unfolding first idle again
    by (simp add: apply_update_def processingUpdate_def)
qed

end
